theory Spec2Isabelle
  imports Main
begin

text \<open>
  A model of the coordination handlers of amicii: projects, agents, file reservations and
  messages over the relational store of \<open>db.ts\<close>.

  Each handler is a function of the clock reading \<open>now\<close> (milliseconds since the epoch,
  one reading per call), its input and the store, and returns its \<open>Result\<close> and the store
  it leaves. A table is the list of its rows in rowid order; the constraints of the
  schema that an INSERT can violate (UNIQUE, PRIMARY KEY, foreign keys) are checked by the
  insert functions, and a violation is the exception the handler's \<open>catch\<close> turns into an
  error. Timestamps are the strings the code stores: \<open>toISOString\<close> for those computed in
  the handlers, \<open>datetime('now')\<close> for column defaults and SQL, compared as text where SQL
  compares them. Numbers are integers. The full-text index and its triggers are left out.
\<close>

section \<open>Strings\<close>

text \<open>
  Source strings are modelled as \<open>string\<close>; a \<open>char\<close> stands for one code unit below 256.
  \<open>char_code\<close> is \<open>charCodeAt\<close>.
\<close>

definition char_code :: "char \<Rightarrow> nat" where
  "char_code c = of_char c"

definition is_upper :: "char \<Rightarrow> bool" where
  "is_upper c = (65 \<le> char_code c \<and> char_code c \<le> 90)"

definition is_lower :: "char \<Rightarrow> bool" where
  "is_lower c = (97 \<le> char_code c \<and> char_code c \<le> 122)"

definition is_digit :: "char \<Rightarrow> bool" where
  "is_digit c = (48 \<le> char_code c \<and> char_code c \<le> 57)"

text \<open>\<open>String.prototype.toLowerCase\<close> on code units below 256 (ASCII and Latin-1 capitals).\<close>

definition char_toLowerCase :: "char \<Rightarrow> char" where
  "char_toLowerCase c =
     (let n = char_code c in
      if (65 \<le> n \<and> n \<le> 90) \<or> (192 \<le> n \<and> n \<le> 222 \<and> n \<noteq> 215)
      then char_of (n + 32) else c)"

definition toLowerCase :: "string \<Rightarrow> string" where
  "toLowerCase s = map char_toLowerCase s"

definition startsWith :: "string \<Rightarrow> string \<Rightarrow> bool" where
  "startsWith s p = (take (length p) s = p)"

text \<open>\<open>s.includes(sub)\<close>: \<open>sub\<close> occurs in \<open>s\<close> at some position.\<close>

fun str_includes :: "string \<Rightarrow> string \<Rightarrow> bool" where
  "str_includes [] sub = (sub = [])"
| "str_includes (c # cs) sub = (startsWith (c # cs) sub \<or> str_includes cs sub)"

text \<open>\<open>s.split(sep)\<close> for a one-character separator; the result is never empty.\<close>

fun split_on :: "char \<Rightarrow> string \<Rightarrow> string list" where
  "split_on sep [] = [[]]"
| "split_on sep (c # cs) =
     (if c = sep then [] # split_on sep cs
      else (case split_on sep cs of
              [] \<Rightarrow> [[c]]
            | w # ws \<Rightarrow> (c # w) # ws))"

fun join :: "string \<Rightarrow> string list \<Rightarrow> string" where
  "join sep [] = []"
| "join sep [x] = x"
| "join sep (x # y # ys) = x @ sep @ join sep (y # ys)"

text \<open>
  Comparison of two TEXT values in SQLite under the default BINARY collation: byte by
  byte, a proper prefix being smaller.
\<close>

fun text_less :: "string \<Rightarrow> string \<Rightarrow> bool" where
  "text_less [] [] = False"
| "text_less [] (y # ys) = True"
| "text_less (x # xs) [] = False"
| "text_less (x # xs) (y # ys) =
     (if x = y then text_less xs ys else char_code x < char_code y)"

section \<open>Time\<close>

text \<open>
  An instant is a number of milliseconds since the epoch, as \<open>Date.now()\<close> returns it.
  \<open>civil_from_days\<close> is the proleptic Gregorian calendar both \<open>Date\<close> and SQLite use.
\<close>

type_synonym time_ms = int

definition civil_from_days :: "int \<Rightarrow> int \<times> int \<times> int" where
  "civil_from_days days =
     (let z = days + 719468;
          era = z div 146097;
          doe = z mod 146097;
          yoe = (doe - doe div 1460 + doe div 36524 - doe div 146096) div 365;
          doy = doe - (365 * yoe + yoe div 4 - yoe div 100);
          mp = (5 * doy + 2) div 153;
          d = doy - (153 * mp + 2) div 5 + 1;
          m = (if mp < 10 then mp + 3 else mp - 9);
          y = yoe + era * 400 + (if m \<le> 2 then 1 else 0)
      in (y, m, d))"

definition digit :: "int \<Rightarrow> char" where
  "digit n = ''0123456789'' ! nat (n mod 10)"

definition pad2 :: "int \<Rightarrow> string" where
  "pad2 n = [digit (n div 10), digit n]"

definition pad3 :: "int \<Rightarrow> string" where
  "pad3 n = [digit (n div 100), digit (n div 10), digit n]"

definition pad4 :: "int \<Rightarrow> string" where
  "pad4 n = [digit (n div 1000), digit (n div 100), digit (n div 10), digit n]"

definition pad6 :: "int \<Rightarrow> string" where
  "pad6 n = [digit (n div 100000), digit (n div 10000), digit (n div 1000),
             digit (n div 100), digit (n div 10), digit n]"

definition iso_year :: "int \<Rightarrow> string" where
  "iso_year y =
     (if 0 \<le> y \<and> y \<le> 9999 then pad4 y
      else if y < 0 then ''-'' @ pad6 (- y) else ''+'' @ pad6 y)"

definition clock_hms :: "time_ms \<Rightarrow> string" where
  "clock_hms t =
     (let r = t mod 86400000
      in pad2 (r div 3600000) @ '':'' @ pad2 ((r div 60000) mod 60) @ '':''
         @ pad2 ((r div 1000) mod 60))"

text \<open>\<open>Date.prototype.toISOString\<close>: \<open>YYYY-MM-DDTHH:MM:SS.mmmZ\<close>.\<close>

definition toISOString :: "time_ms \<Rightarrow> string" where
  "toISOString t =
     (case civil_from_days (t div 86400000) of
        (y, m, d) \<Rightarrow>
          iso_year y @ ''-'' @ pad2 m @ ''-'' @ pad2 d @ ''T'' @ clock_hms t
          @ ''.'' @ pad3 (t mod 1000) @ ''Z'')"

text \<open>
  A \<open>Date\<close> holds a time value of at most 8.64e15 ms in magnitude; \<open>toISOString\<close> on any
  other \<open>Date\<close> throws a RangeError.
\<close>

definition valid_date :: "time_ms \<Rightarrow> bool" where
  "valid_date t = (- 8640000000000000 \<le> t \<and> t \<le> 8640000000000000)"

text \<open>SQLite's \<open>datetime('now')\<close>: \<open>YYYY-MM-DD HH:MM:SS\<close>.\<close>

definition sqlite_datetime :: "time_ms \<Rightarrow> string" where
  "sqlite_datetime t =
     (case civil_from_days (t div 86400000) of
        (y, m, d) \<Rightarrow> pad4 y @ ''-'' @ pad2 m @ ''-'' @ pad2 d @ '' '' @ clock_hms t)"

section \<open>The store (db.ts, types.ts)\<close>

record project =
  p_id :: int
  p_slug :: string
  p_human_key :: string
  p_created_at :: string

record agent =
  a_id :: int
  a_project_id :: int
  a_name :: string
  a_program :: string
  a_model :: string
  a_task_description :: string
  a_inception_ts :: string
  a_last_active_ts :: string

datatype importance = Low | Normal | High | Urgent

record message =
  m_id :: int
  m_project_id :: int
  m_sender_id :: int
  m_thread_id :: "string option"
  m_subject :: string
  m_body_md :: string
  m_to_agents :: string
  m_cc_agents :: string
  m_importance :: importance
  m_ack_required :: int
  m_created_ts :: string

datatype recipient_kind = To | Cc | Bcc

record message_recipient =
  mr_message_id :: int
  mr_agent_id :: int
  mr_kind :: recipient_kind
  mr_read_ts :: "string option"
  mr_ack_ts :: "string option"

record file_reservation =
  fr_id :: int
  fr_project_id :: int
  fr_agent_id :: int
  fr_path_pattern :: string
  fr_exclusive :: int
  fr_reason :: string
  fr_created_ts :: string
  fr_expires_ts :: string
  fr_released_ts :: "string option"

text \<open>Each table is the list of its rows in rowid order.\<close>

record store =
  projects :: "project list"
  agents :: "agent list"
  messages :: "message list"
  message_recipients :: "message_recipient list"
  file_reservations :: "file_reservation list"

record api_error =
  err_type :: string
  err_message :: string
  recoverable :: bool
  suggestions :: "string list option"

text \<open>
  \<open>Result<T, ApiError>\<close>, plus \<open>Throws\<close> for an exception that escapes the handler.
\<close>

datatype 'a result = Ok 'a | Err api_error | Throws string

text \<open>An \<open>INTEGER PRIMARY KEY\<close> left out of an INSERT is one more than the largest rowid.\<close>

definition next_id :: "int list \<Rightarrow> int" where
  "next_id ids = (if ids = [] then 1 else Max (set ids) + 1)"

text \<open>\<open>ORDER BY key DESC\<close>; rows with equal keys stay in scan order.\<close>

fun insert_desc :: "('a \<Rightarrow> string) \<Rightarrow> 'a \<Rightarrow> 'a list \<Rightarrow> 'a list" where
  "insert_desc k x [] = [x]"
| "insert_desc k x (y # ys) =
     (if \<not> text_less (k x) (k y) then x # y # ys else y # insert_desc k x ys)"

definition order_by_desc :: "('a \<Rightarrow> string) \<Rightarrow> 'a list \<Rightarrow> 'a list" where
  "order_by_desc k rows = foldr (insert_desc k) rows []"

section \<open>Projects and agents (handlers/project.ts, handlers/agent.ts)\<close>

definition getProject :: "string \<Rightarrow> store \<Rightarrow> project result" where
  "getProject slugOrKey s =
     (case find (\<lambda>p. p_slug p = slugOrKey \<or> p_human_key p = slugOrKey) (projects s) of
        Some p \<Rightarrow> Ok p
      | None \<Rightarrow>
          (let sugg = map p_slug (take 3 (filter
                 (\<lambda>p. str_includes (p_slug p) (toLowerCase slugOrKey)
                      \<or> str_includes (p_human_key p) slugOrKey) (projects s)))
           in Err \<lparr>err_type = ''PROJECT_NOT_FOUND'',
                   err_message = ''Project not found: '' @ slugOrKey,
                   recoverable = True,
                   suggestions = (if sugg \<noteq> [] then Some sugg else None)\<rparr>))"

text \<open>A successful \<open>getAgent\<close> refreshes \<open>last_active_ts\<close> and returns the row read before.\<close>

definition touch_agent :: "time_ms \<Rightarrow> int \<Rightarrow> store \<Rightarrow> store" where
  "touch_agent now aid s =
     s\<lparr>agents := map (\<lambda>a. if a_id a = aid
                             then a\<lparr>a_last_active_ts := sqlite_datetime now\<rparr> else a)
                      (agents s)\<rparr>"

definition getAgent :: "time_ms \<Rightarrow> string \<Rightarrow> string \<Rightarrow> store \<Rightarrow> agent result \<times> store" where
  "getAgent now slug agentName s =
     (case getProject slug s of
        Err e \<Rightarrow> (Err e, s)
      | Throws x \<Rightarrow> (Throws x, s)
      | Ok project \<Rightarrow>
          (case find (\<lambda>a. a_project_id a = p_id project \<and> a_name a = agentName) (agents s) of
             None \<Rightarrow>
               (let sugg = map a_name (take 3 (filter
                      (\<lambda>a. str_includes (toLowerCase (a_name a)) (toLowerCase agentName))
                      (filter (\<lambda>a. a_project_id a = p_id project) (agents s))))
                in (Err \<lparr>err_type = ''AGENT_NOT_FOUND'',
                         err_message = ''Agent not found: '' @ agentName,
                         recoverable = True,
                         suggestions = (if sugg \<noteq> [] then Some sugg else None)\<rparr>, s))
           | Some agent \<Rightarrow> (Ok agent, touch_agent now (a_id agent) s)))"

section \<open>Reservations (handlers/reservation.ts)\<close>

text \<open>\<open>replace(/\*\*\//g, "")\<close>: every occurrence of \<open>**/\<close>, scanning from the left.\<close>

fun strip_globstar :: "string \<Rightarrow> string" where
  "strip_globstar (a # b # c # rest) =
     (if a = CHR ''*'' \<and> b = CHR ''*'' \<and> c = CHR ''/'' then strip_globstar rest
      else a # strip_globstar (b # c # rest))"
| "strip_globstar s = s"

definition normalize_pattern :: "string \<Rightarrow> string" where
  "normalize_pattern p = filter (\<lambda>c. c \<noteq> CHR ''*'') (strip_globstar p)"

definition parent_dir :: "string \<Rightarrow> string" where
  "parent_dir p = join ''/'' (butlast (split_on CHR ''/'' p))"

definition patternsOverlap :: "string \<Rightarrow> string \<Rightarrow> bool" where
  "patternsOverlap pattern1 pattern2 =
     (let p1 = normalize_pattern pattern1; p2 = normalize_pattern pattern2 in
      if startsWith p1 p2 \<or> startsWith p2 p1 then True
      else
        (let dir1 = parent_dir p1; dir2 = parent_dir p2 in
         if dir1 \<noteq> [] \<and> dir2 \<noteq> [] \<and> (startsWith dir1 dir2 \<or> startsWith dir2 dir1) then True
         else pattern1 = pattern2))"

record CreateReservationInput =
  cr_projectSlug :: string
  cr_agentName :: string
  cr_pathPattern :: string
  cr_ttlSeconds :: "int option"
  cr_exclusive :: "bool option"
  cr_reason :: "string option"

record ReservationConflict =
  c_id :: int
  c_agent_name :: string
  c_path_pattern :: string
  c_expires_ts :: string
  c_reason :: string

record ReservationResult =
  granted :: "file_reservation option list"
  conflicts :: "ReservationConflict list"

text \<open>The WHERE clause \<open>released_ts IS NULL AND expires_ts > datetime('now')\<close>.\<close>

definition is_active :: "time_ms \<Rightarrow> file_reservation \<Rightarrow> bool" where
  "is_active now r =
     (fr_released_ts r = None \<and> text_less (sqlite_datetime now) (fr_expires_ts r))"

text \<open>\<open>file_reservations fr JOIN agents a ON fr.agent_id = a.id\<close>, with \<open>a.name\<close>.\<close>

definition join_agents :: "store \<Rightarrow> file_reservation list \<Rightarrow> (file_reservation \<times> string) list" where
  "join_agents s rows =
     concat (map (\<lambda>fr. map (\<lambda>a. (fr, a_name a))
                           (filter (\<lambda>a. a_id a = fr_agent_id fr) (agents s))) rows)"

definition activeReservations :: "time_ms \<Rightarrow> int \<Rightarrow> int \<Rightarrow> store \<Rightarrow> (file_reservation \<times> string) list" where
  "activeReservations now pid aid s =
     join_agents s (filter (\<lambda>fr. fr_project_id fr = pid \<and> is_active now fr
                                 \<and> fr_exclusive fr = 1 \<and> fr_agent_id fr \<noteq> aid)
                           (file_reservations s))"

definition conflict_of :: "file_reservation \<times> string \<Rightarrow> ReservationConflict" where
  "conflict_of ra =
     \<lparr>c_id = fr_id (fst ra), c_agent_name = snd ra, c_path_pattern = fr_path_pattern (fst ra),
      c_expires_ts = fr_expires_ts (fst ra), c_reason = fr_reason (fst ra)\<rparr>"

text \<open>
  INSERT into \<open>file_reservations\<close>: the foreign keys are enforced
  (\<open>PRAGMA foreign_keys = ON\<close>), \<open>id\<close> and \<open>created_ts\<close> take their defaults.
\<close>

definition insert_reservation ::
  "time_ms \<Rightarrow> int \<Rightarrow> int \<Rightarrow> string \<Rightarrow> int \<Rightarrow> string \<Rightarrow> string \<Rightarrow> store \<Rightarrow> string + (int \<times> store)" where
  "insert_reservation now pid aid pat excl reason expires s =
     (if pid \<notin> p_id ` set (projects s) \<or> aid \<notin> a_id ` set (agents s)
      then Inl ''FOREIGN KEY constraint failed''
      else
        (let rid = next_id (map fr_id (file_reservations s));
             row = \<lparr>fr_id = rid, fr_project_id = pid, fr_agent_id = aid,
                    fr_path_pattern = pat, fr_exclusive = excl, fr_reason = reason,
                    fr_created_ts = sqlite_datetime now, fr_expires_ts = expires,
                    fr_released_ts = None\<rparr>
         in Inr (rid, s\<lparr>file_reservations := file_reservations s @ [row]\<rparr>)))"

definition reservation_failed :: "string \<Rightarrow> api_error" where
  "reservation_failed msg =
     \<lparr>err_type = ''RESERVATION_CREATE_FAILED'', err_message = msg,
      recoverable = False, suggestions = None\<rparr>"

definition createReservation ::
  "time_ms \<Rightarrow> CreateReservationInput \<Rightarrow> store \<Rightarrow> ReservationResult result \<times> store" where
  "createReservation now input s =
     (case getProject (cr_projectSlug input) s of
        Err e \<Rightarrow> (Err e, s)
      | Throws x \<Rightarrow> (Throws x, s)
      | Ok project \<Rightarrow>
          (case getAgent now (cr_projectSlug input) (cr_agentName input) s of
             (Err e, s1) \<Rightarrow> (Err e, s1)
           | (Throws x, s1) \<Rightarrow> (Throws x, s1)
           | (Ok agent, s1) \<Rightarrow>
               (let ttlSeconds = (case cr_ttlSeconds input of None \<Rightarrow> 3600 | Some t \<Rightarrow> t);
                    exclusive = (case cr_exclusive input of None \<Rightarrow> True | Some b \<Rightarrow> b);
                    confl = map conflict_of
                      (filter (\<lambda>res. fr_agent_id (fst res) \<noteq> a_id agent
                                  \<and> patternsOverlap (cr_pathPattern input) (fr_path_pattern (fst res)))
                              (activeReservations now (p_id project) (a_id agent) s1));
                    expires = now + ttlSeconds * 1000
                in if \<not> valid_date expires then (Err (reservation_failed ''Invalid Date''), s1)
                   else
                     (case insert_reservation now (p_id project) (a_id agent)
                             (cr_pathPattern input) (if exclusive then 1 else 0)
                             (case cr_reason input of None \<Rightarrow> [] | Some r \<Rightarrow> r)
                             (toISOString expires) s1 of
                        Inl msg \<Rightarrow> (Err (reservation_failed msg), s1)
                      | Inr (rid, s2) \<Rightarrow>
                          (Ok \<lparr>granted = [find (\<lambda>r. fr_id r = rid) (file_reservations s2)],
                               conflicts = confl\<rparr>, s2)))))"

definition listReservations ::
  "time_ms \<Rightarrow> string \<Rightarrow> bool \<Rightarrow> store \<Rightarrow> (file_reservation \<times> string) list result" where
  "listReservations now slug active s =
     (case getProject slug s of
        Err e \<Rightarrow> Err e
      | Throws x \<Rightarrow> Throws x
      | Ok project \<Rightarrow>
          Ok (order_by_desc (\<lambda>ra. fr_created_ts (fst ra))
                (join_agents s (filter (\<lambda>fr. fr_project_id fr = p_id project
                                            \<and> (if active then is_active now fr else True))
                                       (file_reservations s)))))"

record ReleaseReservationInput =
  rl_projectSlug :: string
  rl_agentName :: string
  rl_pattern :: "string option"
  rl_all :: "bool option"

record ReleaseResult =
  released :: nat
  releasedAt :: string

text \<open>
  \<open>UPDATE file_reservations SET released_ts = ? WHERE cond\<close>, with the number of rows
  changed.
\<close>

definition release_where :: "(file_reservation \<Rightarrow> bool) \<Rightarrow> string \<Rightarrow> store \<Rightarrow> nat \<times> store" where
  "release_where cond ts s =
     (length (filter cond (file_reservations s)),
      s\<lparr>file_reservations :=
          map (\<lambda>r. if cond r then r\<lparr>fr_released_ts := Some ts\<rparr> else r) (file_reservations s)\<rparr>)"

definition releaseReservations ::
  "time_ms \<Rightarrow> ReleaseReservationInput \<Rightarrow> store \<Rightarrow> ReleaseResult result \<times> store" where
  "releaseReservations now input s =
     (case getProject (rl_projectSlug input) s of
        Err e \<Rightarrow> (Err e, s)
      | Throws x \<Rightarrow> (Throws x, s)
      | Ok project \<Rightarrow>
          (case getAgent now (rl_projectSlug input) (rl_agentName input) s of
             (Err e, s1) \<Rightarrow> (Err e, s1)
           | (Throws x, s1) \<Rightarrow> (Throws x, s1)
           | (Ok agent, s1) \<Rightarrow>
               (let now_s = toISOString now in
                if rl_all input = Some True then
                  (case release_where
                          (\<lambda>r. fr_project_id r = p_id project \<and> fr_agent_id r = a_id agent
                               \<and> fr_released_ts r = None) now_s s1 of
                     (n, s2) \<Rightarrow> (Ok \<lparr>released = n, releasedAt = now_s\<rparr>, s2))
                else
                  (case rl_pattern input of
                     Some (c # cs) \<Rightarrow>
                       (case release_where
                               (\<lambda>r. fr_project_id r = p_id project \<and> fr_agent_id r = a_id agent
                                    \<and> fr_path_pattern r = c # cs \<and> fr_released_ts r = None)
                               now_s s1 of
                          (n, s2) \<Rightarrow> (Ok \<lparr>released = n, releasedAt = now_s\<rparr>, s2))
                   | _ \<Rightarrow>
                       (Err \<lparr>err_type = ''INVALID_INPUT'',
                             err_message = ''Must specify pattern or all=true'',
                             recoverable = True, suggestions = None\<rparr>, s1)))))"

section \<open>Project slugs (utils/slug.ts) and ensureProject (handlers/project.ts)\<close>

definition to_int32 :: "int \<Rightarrow> int" where
  "to_int32 x = (x + 2147483648) mod 4294967296 - 2147483648"

definition hex_digit :: "int \<Rightarrow> char" where
  "hex_digit n = ''0123456789abcdef'' ! nat (n mod 16)"

text \<open>\<open>n.toString(16)\<close> for an integer \<open>n \<ge> 0\<close>.\<close>

function to_hex :: "int \<Rightarrow> string" where
  "to_hex n = (if n < 16 then [hex_digit n] else to_hex (n div 16) @ [hex_digit n])"
  by pat_completeness auto
termination
  by (relation "measure nat") auto

text \<open>
  \<open>simpleHash\<close>: \<open>hash << 5\<close> and \<open>hash & hash\<close> are 32-bit operations, the subtraction and
  addition between them are exact.
\<close>

definition simpleHash :: "string \<Rightarrow> string" where
  "simpleHash str =
     to_hex \<bar>fold (\<lambda>c hash. to_int32 (to_int32 (hash * 32) - hash + int (char_code c)))
                  str 0\<bar>"

definition is_slug_char :: "char \<Rightarrow> bool" where
  "is_slug_char c = (is_lower c \<or> is_digit c)"

text \<open>\<open>replace(/[^a-z0-9]+/g, "-")\<close>: one hyphen for each maximal run.\<close>

function collapse_runs :: "string \<Rightarrow> string" where
  "collapse_runs [] = []"
| "collapse_runs (c # cs) =
     (if is_slug_char c then c # collapse_runs cs
      else CHR ''-'' # collapse_runs (dropWhile (\<lambda>x. \<not> is_slug_char x) cs))"
  by pat_completeness auto
termination
  by (relation "measure length") (auto simp: length_dropWhile_le less_Suc_eq_le)

definition slugify :: "string \<Rightarrow> string" where
  "slugify input =
     take 64 (rev (dropWhile (\<lambda>c. c = CHR ''-'')
       (rev (dropWhile (\<lambda>c. c = CHR ''-'') (collapse_runs (toLowerCase input))))))"

definition projectSlug :: "string \<Rightarrow> string" where
  "projectSlug humanKey =
     (let parts = filter (\<lambda>p. p \<noteq> []) (split_on CHR ''/'' humanKey);
          relevant = join ''-'' (drop (length parts - 2) parts);
          hash = take 8 (simpleHash humanKey)
      in slugify (relevant @ ''-'' @ hash))"

text \<open>INSERT into \<open>projects\<close>: \<open>slug\<close> and \<open>human_key\<close> are each UNIQUE.\<close>

definition insert_project :: "time_ms \<Rightarrow> string \<Rightarrow> string \<Rightarrow> store \<Rightarrow> string + store" where
  "insert_project now slug humanKey s =
     (if slug \<in> p_slug ` set (projects s) then Inl ''UNIQUE constraint failed: projects.slug''
      else if humanKey \<in> p_human_key ` set (projects s)
      then Inl ''UNIQUE constraint failed: projects.human_key''
      else Inr (s\<lparr>projects := projects s @
                  [\<lparr>p_id = next_id (map p_id (projects s)), p_slug = slug,
                    p_human_key = humanKey, p_created_at = sqlite_datetime now\<rparr>]\<rparr>))"

text \<open>
  The SELECT and the INSERT of \<open>ensureProject\<close> are separate statements outside any
  transaction. \<open>others\<close> is what other connections commit between the two; alone on the
  store it is the identity.
\<close>

definition ensureProject_among ::
  "(store \<Rightarrow> store) \<Rightarrow> time_ms \<Rightarrow> string \<Rightarrow> store \<Rightarrow> project result \<times> store" where
  "ensureProject_among others now humanKey s =
     (let slug = projectSlug humanKey in
      case find (\<lambda>p. p_human_key p = humanKey \<or> p_slug p = slug) (projects s) of
        Some existing \<Rightarrow> (Ok existing, s)
      | None \<Rightarrow>
          (let s1 = others s in
           case insert_project now slug humanKey s1 of
             Inl msg \<Rightarrow>
               (Err \<lparr>err_type = ''PROJECT_CREATE_FAILED'', err_message = msg,
                     recoverable = False, suggestions = None\<rparr>, s1)
           | Inr s2 \<Rightarrow>
               (case find (\<lambda>p. p_slug p = slug) (projects s2) of
                  None \<Rightarrow>
                    (Err \<lparr>err_type = ''PROJECT_CREATE_FAILED'',
                          err_message = ''Failed to create project'',
                          recoverable = True, suggestions = None\<rparr>, s2)
                | Some created \<Rightarrow> (Ok created, s2))))"

definition ensureProject :: "time_ms \<Rightarrow> string \<Rightarrow> store \<Rightarrow> project result \<times> store" where
  "ensureProject now humanKey s = ensureProject_among (\<lambda>s. s) now humanKey s"

section \<open>Agent names (utils/names.ts)\<close>

definition ADJECTIVES :: "string list" where
  "ADJECTIVES =
    [''Amber'', ''Azure'', ''Blue'', ''Bright'', ''Bronze'', ''Calm'', ''Clear'',
     ''Coral'', ''Crimson'', ''Crystal'', ''Cyber'', ''Dark'', ''Dawn'', ''Deep'',
     ''Desert'', ''Digital'', ''Dusk'', ''Electric'', ''Emerald'', ''Fire'', ''Forest'',
     ''Frost'', ''Ghost'', ''Golden'', ''Gray'', ''Green'', ''Hidden'', ''Ice'',
     ''Indigo'', ''Iron'', ''Ivory'', ''Jade'', ''Light'', ''Lunar'', ''Marble'',
     ''Midnight'', ''Misty'', ''Moon'', ''Neon'', ''Night'', ''Noble'', ''Ocean'',
     ''Onyx'', ''Orange'', ''Pale'', ''Pearl'', ''Pine'', ''Pink'', ''Platinum'',
     ''Purple'', ''Quiet'', ''Rapid'', ''Red'', ''River'', ''Rose'', ''Royal'', ''Ruby'',
     ''Rust'', ''Sacred'', ''Sage'', ''Sand'', ''Sapphire'', ''Scarlet'', ''Secret'',
     ''Shadow'', ''Silent'', ''Silver'', ''Sky'', ''Slate'', ''Snow'', ''Solar'',
     ''Spring'', ''Steel'', ''Stone'', ''Storm'', ''Summer'', ''Swift'', ''Thunder'',
     ''Tidal'', ''Twilight'', ''Velvet'', ''Violet'', ''Warm'', ''White'', ''Wild'',
     ''Winter'', ''Wise'']"

definition NOUNS :: "string list" where
  "NOUNS =
    [''Arrow'', ''Bay'', ''Bear'', ''Bird'', ''Blade'', ''Brook'', ''Canyon'', ''Castle'',
     ''Cave'', ''Cedar'', ''Cliff'', ''Cloud'', ''Cobra'', ''Cove'', ''Crane'', ''Creek'',
     ''Crown'', ''Dawn'', ''Deer'', ''Delta'', ''Dove'', ''Dragon'', ''Drift'', ''Dune'',
     ''Eagle'', ''Elm'', ''Falcon'', ''Fern'', ''Field'', ''Finch'', ''Flame'', ''Flash'',
     ''Flint'', ''Fox'', ''Frost'', ''Garden'', ''Gate'', ''Glacier'', ''Glen'', ''Grove'',
     ''Harbor'', ''Hawk'', ''Haven'', ''Heath'', ''Heron'', ''Hill'', ''Hollow'', ''Horn'',
     ''Isle'', ''Jade'', ''Jaguar'', ''Keep'', ''Lake'', ''Lark'', ''Leaf'', ''Lion'',
     ''Lodge'', ''Lynx'', ''Maple'', ''Marsh'', ''Mesa'', ''Mill'', ''Mist'', ''Moon'',
     ''Moss'', ''Mountain'', ''Oak'', ''Oasis'', ''Owl'', ''Palm'', ''Panther'', ''Pass'',
     ''Path'', ''Peak'', ''Petal'', ''Phoenix'', ''Pine'', ''Plain'', ''Pond'', ''Quail'',
     ''Raven'', ''Reef'', ''Ridge'', ''River'', ''Rock'', ''Rose'', ''Sage'', ''Sand'',
     ''Shade'', ''Shore'', ''Sparrow'', ''Spring'', ''Star'', ''Stone'', ''Storm'',
     ''Stream'', ''Summit'', ''Swan'', ''Thorn'', ''Thunder'', ''Tiger'', ''Tower'',
     ''Trail'', ''Tree'', ''Vale'', ''Valley'', ''Vine'', ''Vista'', ''Wave'', ''Willow'',
     ''Wind'', ''Wolf'', ''Wood'']"

text \<open>
  \<open>name.match(/^([A-Z][a-z]+)([A-Z][a-z]+)$/)\<close>: the two groups, when the name matches.
\<close>

definition match_name :: "string \<Rightarrow> (string \<times> string) option" where
  "match_name name =
     (case name of
        [] \<Rightarrow> None
      | c # cs \<Rightarrow>
          if \<not> is_upper c \<or> takeWhile is_lower cs = [] then None
          else (case dropWhile is_lower cs of
                  [] \<Rightarrow> None
                | d # ds \<Rightarrow>
                    if is_upper d \<and> ds \<noteq> [] \<and> list_all is_lower ds
                    then Some (c # takeWhile is_lower cs, d # ds) else None))"

definition isValidName :: "string \<Rightarrow> bool" where
  "isValidName name =
     (case match_name name of
        None \<Rightarrow> False
      | Some (adj, noun) \<Rightarrow> adj \<in> set ADJECTIVES \<and> noun \<in> set NOUNS)"

text \<open>
  \<open>Math.random\<close> is a stream \<open>rnd\<close> of draws; the \<open>k\<close>-th draw picks index
  \<open>rnd k mod length arr\<close>. \<open>generateName\<close> takes two draws.
\<close>

definition randomElement :: "(nat \<Rightarrow> nat) \<Rightarrow> nat \<Rightarrow> string list \<Rightarrow> string" where
  "randomElement rnd k arr = arr ! (rnd k mod length arr)"

definition generateName :: "(nat \<Rightarrow> nat) \<Rightarrow> nat \<Rightarrow> string" where
  "generateName rnd k = randomElement rnd k ADJECTIVES @ randomElement rnd (k + 1) NOUNS"

function decimal :: "nat \<Rightarrow> string" where
  "decimal n = (if n < 10 then [digit (int n)] else decimal (n div 10) @ [digit (int n)])"
  by pat_completeness auto
termination
  by (relation "measure id") auto

text \<open>The \<open>for\<close> loop: up to \<open>n\<close> more random names, the first free one wins.\<close>

fun try_random :: "(nat \<Rightarrow> nat) \<Rightarrow> string set \<Rightarrow> nat \<Rightarrow> nat \<Rightarrow> string option" where
  "try_random rnd existing k 0 = None"
| "try_random rnd existing k (Suc n) =
     (if generateName rnd k \<notin> existing then Some (generateName rnd k)
      else try_random rnd existing (k + 2) n)"

text \<open>The \<open>while\<close> loop of the fallback; it need not end, so not returning is \<open>None\<close>.\<close>

partial_function (option) suffix_loop ::
  "(nat \<Rightarrow> nat) \<Rightarrow> string set \<Rightarrow> nat \<Rightarrow> string \<Rightarrow> nat \<Rightarrow> string option" where
  "suffix_loop rnd existing k name suffix =
     (if name @ decimal suffix \<in> existing
      then (if suffix + 1 > 100
            then suffix_loop rnd existing (k + 2) (generateName rnd k) 1
            else suffix_loop rnd existing k name (suffix + 1))
      else Some (name @ decimal suffix))"

declare suffix_loop.simps [code]

definition generateUniqueName ::
  "(nat \<Rightarrow> nat) \<Rightarrow> string set \<Rightarrow> string option \<Rightarrow> string option" where
  "generateUniqueName rnd existing hint =
     (if (case hint of None \<Rightarrow> False
          | Some h \<Rightarrow> h \<noteq> [] \<and> isValidName h \<and> h \<notin> existing)
      then hint
      else (case try_random rnd existing 0 100 of
              Some name \<Rightarrow> Some name
            | None \<Rightarrow> suffix_loop rnd existing 202 (generateName rnd 200) 1))"

section \<open>registerAgent (handlers/agent.ts)\<close>

record RegisterAgentInput =
  ra_projectSlug :: string
  ra_name :: "string option"
  ra_program :: string
  ra_model :: string
  ra_taskDescription :: "string option"

text \<open>INSERT into \<open>agents\<close>: \<open>(project_id, name)\<close> is UNIQUE, \<open>project_id\<close> a foreign key.\<close>

definition insert_agent ::
  "time_ms \<Rightarrow> int \<Rightarrow> string \<Rightarrow> string \<Rightarrow> string \<Rightarrow> string \<Rightarrow> store \<Rightarrow> string + store" where
  "insert_agent now pid name program model task s =
     (if (pid, name) \<in> (\<lambda>a. (a_project_id a, a_name a)) ` set (agents s)
      then Inl ''UNIQUE constraint failed: agents.project_id, agents.name''
      else if pid \<notin> p_id ` set (projects s) then Inl ''FOREIGN KEY constraint failed''
      else Inr (s\<lparr>agents := agents s @
                  [\<lparr>a_id = next_id (map a_id (agents s)), a_project_id = pid, a_name = name,
                    a_program = program, a_model = model, a_task_description = task,
                    a_inception_ts = sqlite_datetime now,
                    a_last_active_ts = sqlite_datetime now\<rparr>]\<rparr>))"

definition update_profile :: "time_ms \<Rightarrow> int \<Rightarrow> string \<Rightarrow> string \<Rightarrow> string \<Rightarrow> agent \<Rightarrow> agent" where
  "update_profile now aid program model task a =
     (if a_id a = aid
      then a\<lparr>a_program := program, a_model := model, a_task_description := task,
             a_last_active_ts := sqlite_datetime now\<rparr>
      else a)"

definition register_as ::
  "time_ms \<Rightarrow> project \<Rightarrow> string \<Rightarrow> RegisterAgentInput \<Rightarrow> store \<Rightarrow> agent option result \<times> store" where
  "register_as now project name input s =
     (let task = (case ra_taskDescription input of None \<Rightarrow> [] | Some t \<Rightarrow> t) in
      case find (\<lambda>a. a_project_id a = p_id project \<and> a_name a = name) (agents s) of
        Some existing \<Rightarrow>
          (let s1 = s\<lparr>agents := map (update_profile now (a_id existing) (ra_program input)
                                        (ra_model input) task) (agents s)\<rparr>
           in (Ok (find (\<lambda>a. a_id a = a_id existing) (agents s1)), s1))
      | None \<Rightarrow>
          (case insert_agent now (p_id project) name (ra_program input) (ra_model input) task s of
             Inl msg \<Rightarrow>
               (Err \<lparr>err_type = ''AGENT_CREATE_FAILED'', err_message = msg,
                     recoverable = False, suggestions = None\<rparr>, s)
           | Inr s1 \<Rightarrow>
               (case find (\<lambda>a. a_project_id a = p_id project \<and> a_name a = name) (agents s1) of
                  None \<Rightarrow>
                    (Err \<lparr>err_type = ''AGENT_CREATE_FAILED'',
                          err_message = ''Failed to create agent'',
                          recoverable = True, suggestions = None\<rparr>, s1)
                | Some created \<Rightarrow> (Ok (Some created), s1))))"

text \<open>\<open>None\<close>: the call does not return (the fallback loop of \<open>generateUniqueName\<close>).\<close>

definition registerAgent ::
  "(nat \<Rightarrow> nat) \<Rightarrow> time_ms \<Rightarrow> RegisterAgentInput \<Rightarrow> store \<Rightarrow> (agent option result \<times> store) option" where
  "registerAgent rnd now input s =
     (case getProject (ra_projectSlug input) s of
        Err e \<Rightarrow> Some (Err e, s)
      | Throws x \<Rightarrow> Some (Throws x, s)
      | Ok project \<Rightarrow>
          (let existingNames =
                 set (map a_name (filter (\<lambda>a. a_project_id a = p_id project) (agents s)));
               resolved =
                 (case ra_name input of
                    Some (c # cs) \<Rightarrow>
                      if isValidName (c # cs) then Some (c # cs)
                      else generateUniqueName rnd existingNames (Some (c # cs))
                  | _ \<Rightarrow> generateUniqueName rnd existingNames None)
           in case resolved of
                None \<Rightarrow> None
              | Some name \<Rightarrow> Some (register_as now project name input s)))"

section \<open>Messages (handlers/message.ts)\<close>

record SendMessageInput =
  sm_projectSlug :: string
  sm_sender :: string
  sm_to :: "string list"
  sm_cc :: "string list option"
  sm_subject :: string
  sm_bodyMd :: string
  sm_threadId :: "string option"
  sm_importance :: "importance option"
  sm_ackRequired :: "bool option"

text \<open>An entry of \<open>recipientAgents\<close>: \<open>{agent: {id, name}, kind}\<close>.\<close>

type_synonym recipient = "(int \<times> string) \<times> recipient_kind"

definition other_agents :: "int \<Rightarrow> int \<Rightarrow> store \<Rightarrow> (int \<times> string) list" where
  "other_agents pid sid s =
     map (\<lambda>a. (a_id a, a_name a))
         (filter (\<lambda>a. a_project_id a = pid \<and> a_id a \<noteq> sid) (agents s))"

fun resolve_to ::
  "time_ms \<Rightarrow> string \<Rightarrow> int \<Rightarrow> int \<Rightarrow> string list \<Rightarrow> recipient list \<Rightarrow> store
   \<Rightarrow> recipient list result \<times> store" where
  "resolve_to now slug pid sid [] acc s = (Ok acc, s)"
| "resolve_to now slug pid sid (recipientName # rest) acc s =
     (if toLowerCase recipientName = ''all''
      then resolve_to now slug pid sid rest
             (acc @ map (\<lambda>a. (a, To)) (other_agents pid sid s)) s
      else (case getAgent now slug recipientName s of
              (Err e, s1) \<Rightarrow> (Err e, s1)
            | (Throws x, s1) \<Rightarrow> (Throws x, s1)
            | (Ok a, s1) \<Rightarrow>
                resolve_to now slug pid sid rest (acc @ [((a_id a, a_name a), To)]) s1))"

fun resolve_cc ::
  "time_ms \<Rightarrow> string \<Rightarrow> string list \<Rightarrow> recipient list \<Rightarrow> store
   \<Rightarrow> recipient list result \<times> store" where
  "resolve_cc now slug [] acc s = (Ok acc, s)"
| "resolve_cc now slug (ccName # rest) acc s =
     (case getAgent now slug ccName s of
        (Err e, s1) \<Rightarrow> (Err e, s1)
      | (Throws x, s1) \<Rightarrow> (Throws x, s1)
      | (Ok a, s1) \<Rightarrow> resolve_cc now slug rest (acc @ [((a_id a, a_name a), Cc)]) s1)"

text \<open>INSERT into \<open>messages\<close>: \<open>project_id\<close> and \<open>sender_id\<close> are foreign keys.\<close>

definition insert_message ::
  "time_ms \<Rightarrow> int \<Rightarrow> int \<Rightarrow> SendMessageInput \<Rightarrow> string \<Rightarrow> string \<Rightarrow> store
   \<Rightarrow> string + (int \<times> store)" where
  "insert_message now pid sid input toAgents ccAgents s =
     (if pid \<notin> p_id ` set (projects s) \<or> sid \<notin> a_id ` set (agents s)
      then Inl ''FOREIGN KEY constraint failed''
      else
        (let mid = next_id (map m_id (messages s));
             row = \<lparr>m_id = mid, m_project_id = pid, m_sender_id = sid,
                    m_thread_id = sm_threadId input, m_subject = sm_subject input,
                    m_body_md = sm_bodyMd input, m_to_agents = toAgents,
                    m_cc_agents = ccAgents,
                    m_importance = (case sm_importance input of None \<Rightarrow> Normal | Some i \<Rightarrow> i),
                    m_ack_required = (if sm_ackRequired input = Some True then 1 else 0),
                    m_created_ts = sqlite_datetime now\<rparr>
         in Inr (mid, s\<lparr>messages := messages s @ [row]\<rparr>)))"

text \<open>
  INSERT into \<open>message_recipients\<close>: \<open>(message_id, agent_id)\<close> is the primary key, both
  columns are foreign keys.
\<close>

definition insert_recipient :: "int \<Rightarrow> recipient \<Rightarrow> store \<Rightarrow> string + store" where
  "insert_recipient mid r s =
     (if (mid, fst (fst r)) \<in> (\<lambda>x. (mr_message_id x, mr_agent_id x)) ` set (message_recipients s)
      then Inl ''UNIQUE constraint failed: message_recipients.message_id, message_recipients.agent_id''
      else if mid \<notin> m_id ` set (messages s) \<or> fst (fst r) \<notin> a_id ` set (agents s)
      then Inl ''FOREIGN KEY constraint failed''
      else Inr (s\<lparr>message_recipients := message_recipients s @
                  [\<lparr>mr_message_id = mid, mr_agent_id = fst (fst r), mr_kind = snd r,
                    mr_read_ts = None, mr_ack_ts = None\<rparr>]\<rparr>))"

text \<open>
  The loop over \<open>recipientAgents\<close>: the first failing INSERT throws, and the rows inserted
  before it stay.
\<close>

fun insert_recipients :: "int \<Rightarrow> recipient list \<Rightarrow> store \<Rightarrow> string option \<times> store" where
  "insert_recipients mid [] s = (None, s)"
| "insert_recipients mid (r # rs) s =
     (case insert_recipient mid r s of
        Inl msg \<Rightarrow> (Some msg, s)
      | Inr s1 \<Rightarrow> insert_recipients mid rs s1)"

definition names_of_kind :: "recipient_kind \<Rightarrow> recipient list \<Rightarrow> string" where
  "names_of_kind k rs = join '','' (map (\<lambda>r. snd (fst r)) (filter (\<lambda>r. snd r = k) rs))"

definition send_failed :: "string \<Rightarrow> api_error" where
  "send_failed msg =
     \<lparr>err_type = ''MESSAGE_SEND_FAILED'', err_message = msg,
      recoverable = False, suggestions = None\<rparr>"

definition create_message ::
  "time_ms \<Rightarrow> int \<Rightarrow> int \<Rightarrow> SendMessageInput \<Rightarrow> recipient list \<Rightarrow> store
   \<Rightarrow> message option result \<times> store" where
  "create_message now pid sid input recipientAgents s =
     (case insert_message now pid sid input (names_of_kind To recipientAgents)
             (names_of_kind Cc recipientAgents) s of
        Inl msg \<Rightarrow> (Err (send_failed msg), s)
      | Inr (messageId, s1) \<Rightarrow>
          (case insert_recipients messageId recipientAgents s1 of
             (Some msg, s2) \<Rightarrow> (Err (send_failed msg), s2)
           | (None, s2) \<Rightarrow> (Ok (find (\<lambda>m. m_id m = messageId) (messages s2)), s2)))"

definition sendMessage ::
  "time_ms \<Rightarrow> SendMessageInput \<Rightarrow> store \<Rightarrow> message option result \<times> store" where
  "sendMessage now input s =
     (case getProject (sm_projectSlug input) s of
        Err e \<Rightarrow> (Err e, s)
      | Throws x \<Rightarrow> (Throws x, s)
      | Ok project \<Rightarrow>
          (case getAgent now (sm_projectSlug input) (sm_sender input) s of
             (Err e, s1) \<Rightarrow> (Err e, s1)
           | (Throws x, s1) \<Rightarrow> (Throws x, s1)
           | (Ok sender, s1) \<Rightarrow>
               (case resolve_to now (sm_projectSlug input) (p_id project) (a_id sender)
                       (sm_to input) [] s1 of
                  (Err e, s2) \<Rightarrow> (Err e, s2)
                | (Throws x, s2) \<Rightarrow> (Throws x, s2)
                | (Ok toRecipients, s2) \<Rightarrow>
                    (case resolve_cc now (sm_projectSlug input)
                            (case sm_cc input of None \<Rightarrow> [] | Some cc \<Rightarrow> cc)
                            toRecipients s2 of
                       (Err e, s3) \<Rightarrow> (Err e, s3)
                     | (Throws x, s3) \<Rightarrow> (Throws x, s3)
                     | (Ok recipientAgents, s3) \<Rightarrow>
                         if recipientAgents = []
                         then (Err \<lparr>err_type = ''NO_RECIPIENTS'',
                                    err_message = ''No recipients specified or found'',
                                    recoverable = True, suggestions = None\<rparr>, s3)
                         else create_message now (p_id project) (a_id sender) input
                                recipientAgents s3))))"

definition not_recipient :: api_error where
  "not_recipient =
     \<lparr>err_type = ''NOT_RECIPIENT'', err_message = ''Agent is not a recipient of this message'',
      recoverable = True, suggestions = None\<rparr>"

record ReadResult =
  read_flag :: bool
  readAt :: string

definition markRead ::
  "time_ms \<Rightarrow> string \<Rightarrow> string \<Rightarrow> int \<Rightarrow> store \<Rightarrow> ReadResult result \<times> store" where
  "markRead now slug agentName messageId s =
     (case getAgent now slug agentName s of
        (Err e, s1) \<Rightarrow> (Err e, s1)
      | (Throws x, s1) \<Rightarrow> (Throws x, s1)
      | (Ok agent, s1) \<Rightarrow>
          (case find (\<lambda>r. mr_message_id r = messageId \<and> mr_agent_id r = a_id agent)
                  (message_recipients s1) of
             None \<Rightarrow> (Err not_recipient, s1)
           | Some recipient \<Rightarrow>
               (case mr_read_ts recipient of
                  Some (c # cs) \<Rightarrow> (Ok \<lparr>read_flag = True, readAt = c # cs\<rparr>, s1)
                | _ \<Rightarrow>
                    (Ok \<lparr>read_flag = True, readAt = toISOString now\<rparr>,
                     s1\<lparr>message_recipients :=
                          map (\<lambda>r. if mr_message_id r = messageId \<and> mr_agent_id r = a_id agent
                                    then r\<lparr>mr_read_ts := Some (toISOString now)\<rparr> else r)
                              (message_recipients s1)\<rparr>))))"

record AckResult =
  acknowledged :: bool
  ackAt :: "string option"
  ack_readAt :: "string option"

definition acknowledge ::
  "time_ms \<Rightarrow> string \<Rightarrow> string \<Rightarrow> int \<Rightarrow> store \<Rightarrow> AckResult result \<times> store" where
  "acknowledge now slug agentName messageId s =
     (case getAgent now slug agentName s of
        (Err e, s1) \<Rightarrow> (Err e, s1)
      | (Throws x, s1) \<Rightarrow> (Throws x, s1)
      | (Ok agent, s1) \<Rightarrow>
          (case find (\<lambda>r. mr_message_id r = messageId \<and> mr_agent_id r = a_id agent)
                  (message_recipients s1) of
             None \<Rightarrow> (Err not_recipient, s1)
           | Some recipient \<Rightarrow>
               (let s2 = s1\<lparr>message_recipients :=
                          map (\<lambda>r. if mr_message_id r = messageId \<and> mr_agent_id r = a_id agent
                                    then r\<lparr>mr_ack_ts := Some (toISOString now),
                                           mr_read_ts := (case mr_read_ts r of
                                                            None \<Rightarrow> Some (toISOString now)
                                                          | Some t \<Rightarrow> Some t)\<rparr>
                                    else r)
                              (message_recipients s1)\<rparr>
                in case find (\<lambda>r. mr_message_id r = messageId \<and> mr_agent_id r = a_id agent)
                          (message_recipients s2) of
                     None \<Rightarrow> (Throws ''TypeError'', s2)
                   | Some updated \<Rightarrow>
                       (Ok \<lparr>acknowledged = True, ackAt = mr_ack_ts updated,
                            ack_readAt = mr_read_ts updated\<rparr>, s2))))"

section \<open>Predicates of the statements\<close>





text \<open>
  \<open>touched s s'\<close>: the stores differ at most in the \<open>last_active_ts\<close> of agents, which is
  all a lookup by \<open>getAgent\<close> writes.
\<close>

definition same_but_activity :: "agent \<Rightarrow> agent \<Rightarrow> bool" where
  "same_but_activity a a' = (a'\<lparr>a_last_active_ts := a_last_active_ts a\<rparr> = a)"

definition touched :: "store \<Rightarrow> store \<Rightarrow> bool" where
  "touched s s' =
     (projects s' = projects s \<and> list_all2 same_but_activity (agents s) (agents s')
      \<and> messages s' = messages s \<and> message_recipients s' = message_recipients s
      \<and> file_reservations s' = file_reservations s)"

text \<open>The name is that of an agent of the project \<open>slug\<close> names.\<close>

definition resolves :: "string \<Rightarrow> string \<Rightarrow> store \<Rightarrow> bool" where
  "resolves slug name s =
     (case getProject slug s of
        Ok p \<Rightarrow> list_ex (\<lambda>a. a_project_id a = p_id p \<and> a_name a = name) (agents s)
      | Err e \<Rightarrow> False
      | Throws x \<Rightarrow> False)"

text \<open>
  Some entry of \<open>to\<close> other than the broadcast alias, or some entry of \<open>cc\<close>, does not
  resolve.
\<close>

definition unresolved_entry :: "SendMessageInput \<Rightarrow> store \<Rightarrow> bool" where
  "unresolved_entry input s =
     (list_ex (\<lambda>n. toLowerCase n \<noteq> ''all'' \<and> \<not> resolves (sm_projectSlug input) n s) (sm_to input)
      \<or> list_ex (\<lambda>n. \<not> resolves (sm_projectSlug input) n s)
           (case sm_cc input of None \<Rightarrow> [] | Some cc \<Rightarrow> cc))"

text \<open>No message row is without a recipient row.\<close>

definition every_message_has_recipient :: "store \<Rightarrow> bool" where
  "every_message_has_recipient s =
     list_all (\<lambda>m. m_id m \<in> mr_message_id ` set (message_recipients s)) (messages s)"

text \<open>The foreign key of \<open>message_recipients.message_id\<close>.\<close>

definition recipients_reference_messages :: "store \<Rightarrow> bool" where
  "recipients_reference_messages s =
     list_all (\<lambda>r. mr_message_id r \<in> m_id ` set (messages s)) (message_recipients s)"

text \<open>
  Every project row was written by \<open>ensureProject\<close>, the only INSERT into \<open>projects\<close>: its
  slug is the slug of its key.
\<close>

definition slugs_derived :: "store \<Rightarrow> bool" where
  "slugs_derived s = list_all (\<lambda>p. p_slug p = projectSlug (p_human_key p)) (projects s)"

text \<open>The rows the SELECT of \<open>ensureProject\<close> matches.\<close>

definition rows_for_key :: "string \<Rightarrow> store \<Rightarrow> project list" where
  "rows_for_key humanKey s =
     filter (\<lambda>p. p_human_key p = humanKey \<or> p_slug p = projectSlug humanKey) (projects s)"

text \<open>The \<open>type\<close> of the error a result carries, if it is one.\<close>

definition error_type_of :: "'a result \<Rightarrow> string option" where
  "error_type_of r = (case r of Ok v \<Rightarrow> None | Err e \<Rightarrow> Some (err_type e) | Throws x \<Rightarrow> None)"

text \<open>The store a call of \<open>registerAgent\<close> leaves; \<open>s\<close> when it does not return.\<close>

definition store_after :: "(agent option result \<times> store) option \<Rightarrow> store \<Rightarrow> store" where
  "store_after r s = (case r of None \<Rightarrow> s | Some (res, s') \<Rightarrow> s')"

text \<open>The names in the \<open>agents\<close> table, in rowid order.\<close>

definition agent_names :: "store \<Rightarrow> string list" where
  "agent_names s = map a_name (agents s)"

section \<open>Example states\<close>

text \<open>
  A project \<open>/repo\<close> with the agents AmberFox and JadeWolf; \<open>t0\<close> is
  2026-11-02T10:00:00Z.
\<close>

definition t0 :: time_ms where
  "t0 = 1793613600000"

definition ex_project :: project where
  "ex_project = \<lparr>p_id = 1, p_slug = ''repo-2cbac21'', p_human_key = ''/repo'',
                  p_created_at = ''2026-11-02 09:00:00''\<rparr>"

definition ex_amber :: agent where
  "ex_amber = \<lparr>a_id = 1, a_project_id = 1, a_name = ''AmberFox'', a_program = ''cli'',
                a_model = ''m1'', a_task_description = [], a_inception_ts = ''2026-11-02 09:00:00'',
                a_last_active_ts = ''2026-11-02 09:00:00''\<rparr>"

definition ex_jade :: agent where
  "ex_jade = \<lparr>a_id = 2, a_project_id = 1, a_name = ''JadeWolf'', a_program = ''cli'',
               a_model = ''m1'', a_task_description = [], a_inception_ts = ''2026-11-02 09:00:00'',
               a_last_active_ts = ''2026-11-02 09:00:00''\<rparr>"

definition ex_store :: store where
  "ex_store = \<lparr>projects = [ex_project], agents = [ex_amber, ex_jade], messages = [],
                message_recipients = [], file_reservations = []\<rparr>"

definition ex_reserve :: "string \<Rightarrow> string \<Rightarrow> int option \<Rightarrow> CreateReservationInput" where
  "ex_reserve who pat ttl =
     \<lparr>cr_projectSlug = ''/repo'', cr_agentName = who, cr_pathPattern = pat,
      cr_ttlSeconds = ttl, cr_exclusive = None, cr_reason = None\<rparr>"

text \<open>AmberFox reserves \<open>src/auth/**\<close> at \<open>t0\<close> for 60 seconds.\<close>

definition ex_store1 :: store where
  "ex_store1 = snd (createReservation t0 (ex_reserve ''AmberFox'' ''src/auth/**'' (Some 60)) ex_store)"






text \<open>
  AmberFox holds one reservation that expired the day before \<open>t0\<close> and was never
  released.
\<close>

definition ex_stale_row :: file_reservation where
  "ex_stale_row =
     \<lparr>fr_id = 1, fr_project_id = 1, fr_agent_id = 1, fr_path_pattern = ''docs/**'',
      fr_exclusive = 1, fr_reason = [], fr_created_ts = ''2026-11-01 08:00:00'',
      fr_expires_ts = ''2026-11-01T09:00:00.000Z'', fr_released_ts = None\<rparr>"

definition ex_store_stale :: store where
  "ex_store_stale = ex_store\<lparr>file_reservations := [ex_stale_row]\<rparr>"

definition ex_release_all :: "string \<Rightarrow> ReleaseReservationInput" where
  "ex_release_all who =
     \<lparr>rl_projectSlug = ''/repo'', rl_agentName = who, rl_pattern = None, rl_all = Some True\<rparr>"

text \<open>AmberFox sends message 1 to JadeWolf at \<open>t0\<close>.\<close>

definition ex_send :: "string \<Rightarrow> string list \<Rightarrow> string list option \<Rightarrow> SendMessageInput" where
  "ex_send sender to cc =
     \<lparr>sm_projectSlug = ''/repo'', sm_sender = sender, sm_to = to, sm_cc = cc,
      sm_subject = ''Review'', sm_bodyMd = ''Please review src/auth'', sm_threadId = None,
      sm_importance = None, sm_ackRequired = Some True\<rparr>"

definition ex_store_msg :: store where
  "ex_store_msg = snd (sendMessage t0 (ex_send ''AmberFox'' [''JadeWolf''] None) ex_store)"

definition ex_recipient_row :: message_recipient where
  "ex_recipient_row =
     \<lparr>mr_message_id = 1, mr_agent_id = 2, mr_kind = To, mr_read_ts = None, mr_ack_ts = None\<rparr>"



text \<open>An empty store, and another connection that ensures \<open>/repo\<close> at \<open>t0\<close>.\<close>

definition ex_empty :: store where
  "ex_empty = \<lparr>projects = [], agents = [], messages = [], message_recipients = [],
               file_reservations = []\<rparr>"

definition ex_rival :: "store \<Rightarrow> store" where
  "ex_rival s = snd (ensureProject t0 ''/repo'' s)"

text \<open>
  A random source that always draws index 0 (\<open>AmberArrow\<close>) and one that always draws
  index 1 (\<open>AzureBay\<close>); a project with no agents; registrations without and with a name.
\<close>

definition ex_rnd0 :: "nat \<Rightarrow> nat" where
  "ex_rnd0 k = 0"

definition ex_rnd1 :: "nat \<Rightarrow> nat" where
  "ex_rnd1 k = 1"

definition ex_store_p :: store where
  "ex_store_p = ex_store\<lparr>agents := []\<rparr>"

definition ex_register :: "string option \<Rightarrow> string \<Rightarrow> RegisterAgentInput" where
  "ex_register name program =
     \<lparr>ra_projectSlug = ''/repo'', ra_name = name, ra_program = program, ra_model = ''m2'',
      ra_taskDescription = Some ''refactor''\<rparr>"

text \<open>
  Two registrations without a name while every draw is \<open>AmberArrow\<close>: the first takes the
  name, the second falls back to the numeric suffix.
\<close>

definition ex_store_fallback :: store where
  "ex_store_fallback =
     (let s1 = store_after (registerAgent ex_rnd0 t0 (ex_register None ''cli'') ex_store_p) ex_store_p
      in store_after (registerAgent ex_rnd0 (t0 + 1000) (ex_register None ''cli'') s1) s1)"

section \<open>Basic facts\<close>

lemma next_id_fresh:
  assumes "x \<in> set ids"
  shows "x < next_id ids"
proof -
  from assms have "ids \<noteq> []" by auto
  moreover from assms have "x \<le> Max (set ids)" by simp
  ultimately show ?thesis by (simp add: next_id_def)
qed




lemma touch_agent_simps [simp]:
  "projects (touch_agent now aid s) = projects s"
  "messages (touch_agent now aid s) = messages s"
  "message_recipients (touch_agent now aid s) = message_recipients s"
  "file_reservations (touch_agent now aid s) = file_reservations s"
  by (simp_all add: touch_agent_def)


lemma touch_agent_keys [simp]:
  "map (\<lambda>a. (a_id a, a_project_id a, a_name a)) (agents (touch_agent now aid s))
   = map (\<lambda>a. (a_id a, a_project_id a, a_name a)) (agents s)"
  by (simp add: touch_agent_def comp_def)

lemma getProject_cong: "projects s' = projects s \<Longrightarrow> getProject slug s' = getProject slug s"
  by (simp add: getProject_def cong: option.case_cong)

lemma getProject_touch [simp]: "getProject slug (touch_agent now aid s) = getProject slug s"
  by (rule getProject_cong) simp

lemma getAgent_Ok:
  "fst (getAgent now slug name s) = Ok a \<Longrightarrow>
   \<exists>p. getProject slug s = Ok p
     \<and> find (\<lambda>a. a_project_id a = p_id p \<and> a_name a = name) (agents s) = Some a
     \<and> getAgent now slug name s = (Ok a, touch_agent now (a_id a) s)"
  by (auto simp: getAgent_def Let_def split: result.splits option.splits)

lemma join_row_map:
  "(\<And>a. a_id (f a) = a_id a \<and> a_name (f a) = a_name a) \<Longrightarrow>
   map (\<lambda>a. (fr, a_name a)) (filter (\<lambda>a. a_id a = k) (map f xs))
   = map (\<lambda>a. (fr, a_name a)) (filter (\<lambda>a. a_id a = k) xs)"
  by (induction xs) auto

lemma join_agents_touch [simp]: "join_agents (touch_agent now aid s) rows = join_agents s rows"
  by (simp add: join_agents_def touch_agent_def join_row_map)

lemma activeReservations_touch [simp]:
  "activeReservations now pid aid (touch_agent now' aid' s) = activeReservations now pid aid s"
  by (simp add: activeReservations_def)

section \<open>Creating reservations\<close>




section \<open>Expiry\<close>

text \<open>
  C2. A reservation made at 10:00:00 for 60 seconds and never released is still in the
  active listing 61 seconds later: \<open>expires_ts\<close> is written by \<open>toISOString\<close>
  (\<open>2026-11-02T10:01:00.000Z\<close>) and compared as text with \<open>datetime('now')\<close>
  (\<open>2026-11-02 10:01:01\<close>), and \<open>T\<close> sorts after the space.
\<close>

theorem expired_reservation_still_listed:
  "listReservations (t0 + 61000) ''/repo'' True ex_store1 =
     Ok [(\<lparr>fr_id = 1, fr_project_id = 1, fr_agent_id = 1, fr_path_pattern = ''src/auth/**'',
           fr_exclusive = 1, fr_reason = [], fr_created_ts = ''2026-11-02 10:00:00'',
           fr_expires_ts = ''2026-11-02T10:01:00.000Z'', fr_released_ts = None\<rparr>, ''AmberFox'')]"
  by code_simp

section \<open>Conflicts between overlapping reservations\<close>








section \<open>Releasing reservations\<close>

lemma find_map_preserve:
  "(\<And>x. P (f x) = P x) \<Longrightarrow> find P (map f xs) = map_option f (find P xs)"
  by (induction xs) auto

lemma getAgent_touch:
  assumes "fst (getAgent now slug name s) = Ok a"
  shows "fst (getAgent now' slug name (touch_agent now (a_id a) s))
         = Ok (a\<lparr>a_last_active_ts := sqlite_datetime now\<rparr>)"
proof -
  from getAgent_Ok [OF assms] obtain p where p: "getProject slug s = Ok p"
    and f: "find (\<lambda>a. a_project_id a = p_id p \<and> a_name a = name) (agents s) = Some a"
    by blast
  have "find (\<lambda>a. a_project_id a = p_id p \<and> a_name a = name)
          (map (\<lambda>b. if a_id b = a_id a then b\<lparr>a_last_active_ts := sqlite_datetime now\<rparr> else b) (agents s))
        = map_option (\<lambda>b. if a_id b = a_id a then b\<lparr>a_last_active_ts := sqlite_datetime now\<rparr> else b)
            (find (\<lambda>a. a_project_id a = p_id p \<and> a_name a = name) (agents s))"
    by (rule find_map_preserve) simp
  then have "find (\<lambda>a. a_project_id a = p_id p \<and> a_name a = name) (agents (touch_agent now (a_id a) s))
        = Some (a\<lparr>a_last_active_ts := sqlite_datetime now\<rparr>)"
    by (simp add: f touch_agent_def)
  then show ?thesis
    by (simp add: getAgent_def p)
qed

lemma getAgent_fst_cong:
  assumes "projects s' = projects s" and "agents s' = agents s"
  shows "fst (getAgent now slug name s') = fst (getAgent now slug name s)"
proof -
  have "getProject slug s' = getProject slug s"
    using assms(1) by (rule getProject_cong)
  then show ?thesis
    by (simp add: getAgent_def assms Let_def split: result.splits option.splits)
qed

lemma releaseReservations_all:
  assumes proj: "getProject (rl_projectSlug input) s = Ok project"
      and ag: "fst (getAgent now (rl_projectSlug input) (rl_agentName input) s) = Ok agent"
      and all: "rl_all input = Some True"
  shows "releaseReservations now input s =
           (Ok \<lparr>released = length (filter (\<lambda>r. fr_project_id r = p_id project
                                               \<and> fr_agent_id r = a_id agent
                                               \<and> fr_released_ts r = None) (file_reservations s)),
                releasedAt = toISOString now\<rparr>,
            (touch_agent now (a_id agent) s)\<lparr>file_reservations :=
               map (\<lambda>r. if fr_project_id r = p_id project \<and> fr_agent_id r = a_id agent
                            \<and> fr_released_ts r = None
                         then r\<lparr>fr_released_ts := Some (toISOString now)\<rparr> else r)
                   (file_reservations s)\<rparr>)"
proof -
  from getAgent_Ok [OF ag]
  have ga: "getAgent now (rl_projectSlug input) (rl_agentName input) s
            = (Ok agent, touch_agent now (a_id agent) s)"
    by auto
  show ?thesis
    by (simp add: releaseReservations_def proj ga all release_where_def Let_def)
qed

text \<open>
  C5. \<open>releaseReservations\<close> with \<open>all = true\<close> sets \<open>released_ts\<close> on every reservation of
  that agent in that project whose \<open>released_ts\<close> is null, expired or not, and changes no
  other row; the count returned is the number of those rows, and a second such call,
  at any later time, releases zero rows and leaves the table as it is.
\<close>

theorem release_all_then_none:
  assumes proj: "getProject (rl_projectSlug input) s = Ok project"
      and ag: "fst (getAgent now (rl_projectSlug input) (rl_agentName input) s) = Ok agent"
      and all: "rl_all input = Some True"
  shows "\<exists>s1 s2.
           releaseReservations now input s =
             (Ok \<lparr>released = length (filter (\<lambda>r. fr_project_id r = p_id project
                                                 \<and> fr_agent_id r = a_id agent
                                                 \<and> fr_released_ts r = None) (file_reservations s)),
                  releasedAt = toISOString now\<rparr>, s1)
         \<and> file_reservations s1 =
             map (\<lambda>r. if fr_project_id r = p_id project \<and> fr_agent_id r = a_id agent
                          \<and> fr_released_ts r = None
                       then r\<lparr>fr_released_ts := Some (toISOString now)\<rparr> else r)
                 (file_reservations s)
         \<and> releaseReservations now' input s1 =
             (Ok \<lparr>released = 0, releasedAt = toISOString now'\<rparr>, s2)
         \<and> file_reservations s2 = file_reservations s1"
proof -
  let ?c = "\<lambda>r. fr_project_id r = p_id project \<and> fr_agent_id r = a_id agent
                \<and> fr_released_ts r = None"
  let ?rows = "map (\<lambda>r. if ?c r then r\<lparr>fr_released_ts := Some (toISOString now)\<rparr> else r)
                   (file_reservations s)"
  let ?s1 = "(touch_agent now (a_id agent) s)\<lparr>file_reservations := ?rows\<rparr>"
  let ?agent1 = "agent\<lparr>a_last_active_ts := sqlite_datetime now\<rparr>"
  have first: "releaseReservations now input s =
      (Ok \<lparr>released = length (filter ?c (file_reservations s)),
           releasedAt = toISOString now\<rparr>, ?s1)"
    using releaseReservations_all [OF proj ag all] by simp
  have "projects ?s1 = projects s" by simp
  from getProject_cong [OF this] proj
  have proj1: "getProject (rl_projectSlug input) ?s1 = Ok project" by simp
  have "fst (getAgent now' (rl_projectSlug input) (rl_agentName input) ?s1)
        = fst (getAgent now' (rl_projectSlug input) (rl_agentName input)
                 (touch_agent now (a_id agent) s))"
    by (rule getAgent_fst_cong) simp_all
  with getAgent_touch [OF ag, of now']
  have ag1: "fst (getAgent now' (rl_projectSlug input) (rl_agentName input) ?s1) = Ok ?agent1"
    by simp
  have again: "map (\<lambda>r. if ?c r then r\<lparr>fr_released_ts := Some (toISOString now')\<rparr> else r) ?rows
               = ?rows"
    by (intro map_idI) auto
  have zero: "filter ?c ?rows = []"
    by (auto simp: filter_empty_conv)
  have rows1: "file_reservations ?s1 = ?rows" and id1: "a_id ?agent1 = a_id agent"
    by simp_all
  have second: "releaseReservations now' input ?s1 =
      (Ok \<lparr>released = 0, releasedAt = toISOString now'\<rparr>,
       (touch_agent now' (a_id agent) ?s1)\<lparr>file_reservations := ?rows\<rparr>)"
    using releaseReservations_all [OF proj1 ag1 all]
    unfolding rows1 id1 again zero by simp
  show ?thesis
    apply (intro exI conjI)
       apply (rule first)
      apply simp
     apply (rule second)
    apply simp
    done
qed

theorem release_all_then_none_witness:
  "\<exists>s1 s2.
     releaseReservations (t0 + 1000) (ex_release_all ''AmberFox'') ex_store1 =
       (Ok \<lparr>released = 1, releasedAt = ''2026-11-02T10:00:01.000Z''\<rparr>, s1)
   \<and> map fr_released_ts (file_reservations s1) = [Some ''2026-11-02T10:00:01.000Z'']
   \<and> releaseReservations (t0 + 2000) (ex_release_all ''AmberFox'') s1 =
       (Ok \<lparr>released = 0, releasedAt = ''2026-11-02T10:00:02.000Z''\<rparr>, s2)
   \<and> file_reservations s2 = file_reservations s1"
proof -
  let ?input = "ex_release_all ''AmberFox''"
  let ?agent = "ex_amber\<lparr>a_last_active_ts := ''2026-11-02 10:00:00''\<rparr>"
  have h1: "getProject (rl_projectSlug ?input) ex_store1 = Ok ex_project" by code_simp
  have h2: "fst (getAgent (t0 + 1000) (rl_projectSlug ?input) (rl_agentName ?input) ex_store1) = Ok ?agent"
    by code_simp
  have h3: "rl_all ?input = Some True" by code_simp
  have n: "length (filter (\<lambda>r. fr_project_id r = p_id ex_project \<and> fr_agent_id r = a_id ?agent
                              \<and> fr_released_ts r = None) (file_reservations ex_store1)) = 1"
    by code_simp
  have r: "map fr_released_ts
             (map (\<lambda>r. if fr_project_id r = p_id ex_project \<and> fr_agent_id r = a_id ?agent
                            \<and> fr_released_ts r = None
                         then r\<lparr>fr_released_ts := Some (toISOString (t0 + 1000))\<rparr> else r)
                  (file_reservations ex_store1)) = [Some ''2026-11-02T10:00:01.000Z'']"
    by code_simp
  have t: "toISOString (t0 + 1000) = ''2026-11-02T10:00:01.000Z''"
    "toISOString (t0 + 2000) = ''2026-11-02T10:00:02.000Z''"
    by code_simp+
  from release_all_then_none [OF h1 h2 h3, of "t0 + 2000"] obtain s1 s2 where
    a: "releaseReservations (t0 + 1000) ?input ex_store1 =
          (Ok \<lparr>released = 1, releasedAt = ''2026-11-02T10:00:01.000Z''\<rparr>, s1)"
    and b: "file_reservations s1 =
             map (\<lambda>r. if fr_project_id r = p_id ex_project \<and> fr_agent_id r = a_id ?agent
                          \<and> fr_released_ts r = None
                       then r\<lparr>fr_released_ts := Some (toISOString (t0 + 1000))\<rparr> else r)
                 (file_reservations ex_store1)"
    and c: "releaseReservations (t0 + 2000) ?input s1 =
             (Ok \<lparr>released = 0, releasedAt = ''2026-11-02T10:00:02.000Z''\<rparr>, s2)"
    and d: "file_reservations s2 = file_reservations s1"
    unfolding n t by blast
  from b r have m: "map fr_released_ts (file_reservations s1) = [Some ''2026-11-02T10:00:01.000Z'']"
    by simp
  show ?thesis
    by (rule exI [of _ s1], rule exI [of _ s2]) (simp only: a m c d simp_thms)
qed

text \<open>
  A reservation that expired the day before and was never released is not active, and
  \<open>all = true\<close> still sets its \<open>released_ts\<close> and counts it.
\<close>

theorem release_all_releases_expired:
  "\<not> is_active t0 ex_stale_row
   \<and> file_reservations ex_store_stale = [ex_stale_row]
   \<and> fst (releaseReservations t0 (ex_release_all ''AmberFox'') ex_store_stale)
       = Ok \<lparr>released = 1, releasedAt = ''2026-11-02T10:00:00.000Z''\<rparr>
   \<and> file_reservations (snd (releaseReservations t0 (ex_release_all ''AmberFox'') ex_store_stale))
       = [ex_stale_row\<lparr>fr_released_ts := Some ''2026-11-02T10:00:00.000Z''\<rparr>]"
  by code_simp

section \<open>Reading and acknowledging messages\<close>

lemma toISOString_Cons: "\<exists>c cs. toISOString t = c # cs"
proof -
  have "toISOString t \<noteq> []"
    by (simp add: toISOString_def split: prod.splits)
  then show ?thesis by (simp add: neq_Nil_conv)
qed

lemma getAgent_again:
  assumes "fst (getAgent now slug name s) = Ok a"
      and "projects s' = projects s"
      and "agents s' = agents (touch_agent now (a_id a) s)"
  shows "\<exists>a'. fst (getAgent now' slug name s') = Ok a' \<and> a_id a' = a_id a"
proof -
  have "fst (getAgent now' slug name s') = fst (getAgent now' slug name (touch_agent now (a_id a) s))"
    by (rule getAgent_fst_cong) (simp_all add: assms)
  with getAgent_touch [OF assms(1), of now'] show ?thesis by simp
qed

lemma markRead_step:
  assumes ag: "fst (getAgent now slug name s) = Ok agent"
      and row: "find (\<lambda>r. mr_message_id r = mid \<and> mr_agent_id r = a_id agent)
                  (message_recipients s) = Some row"
  shows "markRead now slug name mid s =
           (case mr_read_ts row of
              Some (c # cs) \<Rightarrow> (Ok \<lparr>read_flag = True, readAt = c # cs\<rparr>, touch_agent now (a_id agent) s)
            | _ \<Rightarrow>
                (Ok \<lparr>read_flag = True, readAt = toISOString now\<rparr>,
                 (touch_agent now (a_id agent) s)\<lparr>message_recipients :=
                    map (\<lambda>r. if mr_message_id r = mid \<and> mr_agent_id r = a_id agent
                              then r\<lparr>mr_read_ts := Some (toISOString now)\<rparr> else r)
                        (message_recipients s)\<rparr>))"
proof -
  from getAgent_Ok [OF ag]
  have ga: "getAgent now slug name s = (Ok agent, touch_agent now (a_id agent) s)" by auto
  show ?thesis
    by (simp add: markRead_def ga row split: option.splits list.splits)
qed

text \<open>
  C7. For a (message, agent) pair with a recipient row, \<open>markRead\<close> returns
  \<open>read = true\<close> with the stored \<open>read_ts\<close> when there is one and with the time of the call
  otherwise, and a second \<open>markRead\<close>, at any time, returns the same \<open>readAt\<close> and leaves
  the recipient rows as the first call left them.
\<close>

theorem markRead_write_once:
  assumes ag: "fst (getAgent now1 slug name s) = Ok agent"
      and row: "find (\<lambda>r. mr_message_id r = mid \<and> mr_agent_id r = a_id agent)
                  (message_recipients s) = Some row"
  shows "\<exists>ts s1 s2.
           markRead now1 slug name mid s = (Ok \<lparr>read_flag = True, readAt = ts\<rparr>, s1)
         \<and> ts = (case mr_read_ts row of Some (c # cs) \<Rightarrow> c # cs | _ \<Rightarrow> toISOString now1)
         \<and> markRead now2 slug name mid s1 = (Ok \<lparr>read_flag = True, readAt = ts\<rparr>, s2)
         \<and> message_recipients s2 = message_recipients s1"
proof -
  let ?key = "\<lambda>r. mr_message_id r = mid \<and> mr_agent_id r = a_id agent"
  let ?t1 = "touch_agent now1 (a_id agent) s"
  show ?thesis
  proof (cases "\<exists>c cs. mr_read_ts row = Some (c # cs)")
    case True
    then obtain c cs where r: "mr_read_ts row = Some (c # cs)" by blast
    have first: "markRead now1 slug name mid s = (Ok \<lparr>read_flag = True, readAt = c # cs\<rparr>, ?t1)"
      using markRead_step [OF ag row] by (simp add: r)
    from getAgent_again [OF ag, of ?t1 now2] obtain a' where
      ag': "fst (getAgent now2 slug name ?t1) = Ok a'" and id: "a_id a' = a_id agent"
      by auto
    have row': "find (\<lambda>r. mr_message_id r = mid \<and> mr_agent_id r = a_id a') (message_recipients ?t1) = Some row"
      using row by (simp add: id)
    have second: "markRead now2 slug name mid ?t1
                  = (Ok \<lparr>read_flag = True, readAt = c # cs\<rparr>, touch_agent now2 (a_id a') ?t1)"
      using markRead_step [OF ag' row'] by (simp add: r)
    show ?thesis
      apply (rule exI [of _ "c # cs"], rule exI [of _ ?t1],
             rule exI [of _ "touch_agent now2 (a_id a') ?t1"])
      by (simp add: first second r)
  next
    case False
    obtain c cs where iso: "toISOString now1 = c # cs"
      using toISOString_Cons by blast
    let ?upd = "\<lambda>r. if ?key r then r\<lparr>mr_read_ts := Some (toISOString now1)\<rparr> else r"
    let ?s1 = "?t1\<lparr>message_recipients := map ?upd (message_recipients s)\<rparr>"
    from False have first: "markRead now1 slug name mid s
        = (Ok \<lparr>read_flag = True, readAt = toISOString now1\<rparr>, ?s1)"
      using markRead_step [OF ag row]
      by (auto split: option.splits list.splits)
    from False have ts: "(case mr_read_ts row of Some (c # cs) \<Rightarrow> c # cs | _ \<Rightarrow> toISOString now1)
                         = toISOString now1"
      by (auto split: option.splits list.splits)
    from getAgent_again [OF ag, of ?s1 now2] obtain a' where
      ag': "fst (getAgent now2 slug name ?s1) = Ok a'" and id: "a_id a' = a_id agent"
      by auto
    have "find ?key (map ?upd (message_recipients s)) = map_option ?upd (find ?key (message_recipients s))"
      by (rule find_map_preserve) simp
    moreover have "?key row" using row by (auto simp: find_Some_iff)
    ultimately have row': "find (\<lambda>r. mr_message_id r = mid \<and> mr_agent_id r = a_id a')
                             (message_recipients ?s1)
                           = Some (row\<lparr>mr_read_ts := Some (c # cs)\<rparr>)"
      by (simp add: row id iso)
    have second: "markRead now2 slug name mid ?s1
                  = (Ok \<lparr>read_flag = True, readAt = c # cs\<rparr>, touch_agent now2 (a_id a') ?s1)"
      using markRead_step [OF ag' row'] by simp
    show ?thesis
      apply (rule exI [of _ "toISOString now1"], rule exI [of _ ?s1],
             rule exI [of _ "touch_agent now2 (a_id a') ?s1"])
      by (simp add: first second ts iso)
  qed
qed

theorem markRead_write_once_witness:
  "\<exists>s1 s2.
      markRead (t0 + 1000) ''/repo'' ''JadeWolf'' 1 ex_store_msg
        = (Ok \<lparr>read_flag = True, readAt = ''2026-11-02T10:00:01.000Z''\<rparr>, s1)
    \<and> markRead (t0 + 9000) ''/repo'' ''JadeWolf'' 1 s1
        = (Ok \<lparr>read_flag = True, readAt = ''2026-11-02T10:00:01.000Z''\<rparr>, s2)
    \<and> message_recipients s2 = message_recipients s1"
proof -
  let ?jade = "ex_jade\<lparr>a_last_active_ts := ''2026-11-02 10:00:00''\<rparr>"
  have h1: "fst (getAgent (t0 + 1000) ''/repo'' ''JadeWolf'' ex_store_msg) = Ok ?jade"
    by code_simp
  have h2: "find (\<lambda>r. mr_message_id r = 1 \<and> mr_agent_id r = a_id ?jade)
              (message_recipients ex_store_msg) = Some ex_recipient_row"
    by code_simp
  have t: "(case mr_read_ts ex_recipient_row of Some (c # cs) \<Rightarrow> c # cs
            | _ \<Rightarrow> toISOString (t0 + 1000)) = ''2026-11-02T10:00:01.000Z''"
    by code_simp
  from markRead_write_once [OF h1 h2, of "t0 + 9000"] show ?thesis
    unfolding t by blast
qed

lemma acknowledge_step:
  assumes ag: "fst (getAgent now slug name s) = Ok agent"
      and row: "find (\<lambda>r. mr_message_id r = mid \<and> mr_agent_id r = a_id agent)
                  (message_recipients s) = Some row"
  shows "acknowledge now slug name mid s =
           (Ok \<lparr>acknowledged = True, ackAt = Some (toISOString now),
                ack_readAt = Some (case mr_read_ts row of None \<Rightarrow> toISOString now | Some t \<Rightarrow> t)\<rparr>,
            (touch_agent now (a_id agent) s)\<lparr>message_recipients :=
               map (\<lambda>r. if mr_message_id r = mid \<and> mr_agent_id r = a_id agent
                         then r\<lparr>mr_ack_ts := Some (toISOString now),
                                mr_read_ts := (case mr_read_ts r of
                                                 None \<Rightarrow> Some (toISOString now)
                                               | Some t \<Rightarrow> Some t)\<rparr>
                         else r)
                   (message_recipients s)\<rparr>)"
proof -
  let ?key = "\<lambda>r. mr_message_id r = mid \<and> mr_agent_id r = a_id agent"
  let ?upd = "\<lambda>r. if ?key r
                   then r\<lparr>mr_ack_ts := Some (toISOString now),
                          mr_read_ts := (case mr_read_ts r of
                                           None \<Rightarrow> Some (toISOString now) | Some t \<Rightarrow> Some t)\<rparr>
                   else r"
  from getAgent_Ok [OF ag]
  have ga: "getAgent now slug name s = (Ok agent, touch_agent now (a_id agent) s)" by auto
  have "find ?key (map ?upd (message_recipients s)) = map_option ?upd (find ?key (message_recipients s))"
    by (rule find_map_preserve) simp
  moreover have "?key row" using row by (auto simp: find_Some_iff)
  ultimately have f: "find ?key (map ?upd (message_recipients s))
      = Some (row\<lparr>mr_ack_ts := Some (toISOString now),
                   mr_read_ts := (case mr_read_ts row of
                                    None \<Rightarrow> Some (toISOString now) | Some t \<Rightarrow> Some t)\<rparr>)"
    by (simp add: row)
  show ?thesis
    by (simp add: acknowledge_def ga row f Let_def split: option.splits)
qed

text \<open>
  C8. For a (message, agent) pair with a recipient row, \<open>acknowledge\<close> returns the time of
  the call as \<open>ackAt\<close>; \<open>readAt\<close> is the stored \<open>read_ts\<close> when there is one and the time of
  the call otherwise. A second \<open>acknowledge\<close> returns the same \<open>readAt\<close>, and as \<open>ackAt\<close> the
  time of the second call: \<open>ack_ts\<close> is overwritten.
\<close>

theorem acknowledge_overwrites_ack:
  assumes ag: "fst (getAgent now1 slug name s) = Ok agent"
      and row: "find (\<lambda>r. mr_message_id r = mid \<and> mr_agent_id r = a_id agent)
                  (message_recipients s) = Some row"
  shows "\<exists>r s1 s2.
           acknowledge now1 slug name mid s =
             (Ok \<lparr>acknowledged = True, ackAt = Some (toISOString now1), ack_readAt = Some r\<rparr>, s1)
         \<and> r = (case mr_read_ts row of None \<Rightarrow> toISOString now1 | Some t \<Rightarrow> t)
         \<and> acknowledge now2 slug name mid s1 =
             (Ok \<lparr>acknowledged = True, ackAt = Some (toISOString now2), ack_readAt = Some r\<rparr>, s2)"
proof -
  let ?key = "\<lambda>r. mr_message_id r = mid \<and> mr_agent_id r = a_id agent"
  let ?r = "case mr_read_ts row of None \<Rightarrow> toISOString now1 | Some t \<Rightarrow> t"
  let ?upd = "\<lambda>r. if ?key r
                   then r\<lparr>mr_ack_ts := Some (toISOString now1),
                          mr_read_ts := (case mr_read_ts r of
                                           None \<Rightarrow> Some (toISOString now1) | Some t \<Rightarrow> Some t)\<rparr>
                   else r"
  let ?s1 = "(touch_agent now1 (a_id agent) s)\<lparr>message_recipients := map ?upd (message_recipients s)\<rparr>"
  have first: "acknowledge now1 slug name mid s =
      (Ok \<lparr>acknowledged = True, ackAt = Some (toISOString now1), ack_readAt = Some ?r\<rparr>, ?s1)"
    by (rule acknowledge_step [OF ag row])
  from getAgent_again [OF ag, of ?s1 now2] obtain a' where
    ag': "fst (getAgent now2 slug name ?s1) = Ok a'" and id: "a_id a' = a_id agent"
    by auto
  have "find ?key (map ?upd (message_recipients s)) = map_option ?upd (find ?key (message_recipients s))"
    by (rule find_map_preserve) simp
  moreover have "?key row" using row by (auto simp: find_Some_iff)
  ultimately have row': "find (\<lambda>r. mr_message_id r = mid \<and> mr_agent_id r = a_id a')
                           (message_recipients ?s1)
      = Some (row\<lparr>mr_ack_ts := Some (toISOString now1), mr_read_ts := Some ?r\<rparr>)"
    by (simp add: row id split: option.splits)
  have second: "\<exists>s2. acknowledge now2 slug name mid ?s1 =
      (Ok \<lparr>acknowledged = True, ackAt = Some (toISOString now2), ack_readAt = Some ?r\<rparr>, s2)"
    using acknowledge_step [OF ag' row'] by simp
  then obtain s2 where s2: "acknowledge now2 slug name mid ?s1 =
      (Ok \<lparr>acknowledged = True, ackAt = Some (toISOString now2), ack_readAt = Some ?r\<rparr>, s2)"
    by blast
  show ?thesis
    by (rule exI [of _ ?r], rule exI [of _ ?s1], rule exI [of _ s2]) (simp only: first s2 simp_thms)
qed

theorem acknowledge_overwrites_ack_witness:
  "\<exists>s1 s2.
      acknowledge (t0 + 1000) ''/repo'' ''JadeWolf'' 1 ex_store_msg
        = (Ok \<lparr>acknowledged = True, ackAt = Some ''2026-11-02T10:00:01.000Z'',
               ack_readAt = Some ''2026-11-02T10:00:01.000Z''\<rparr>, s1)
    \<and> acknowledge (t0 + 60000) ''/repo'' ''JadeWolf'' 1 s1
        = (Ok \<lparr>acknowledged = True, ackAt = Some ''2026-11-02T10:01:00.000Z'',
               ack_readAt = Some ''2026-11-02T10:00:01.000Z''\<rparr>, s2)"
proof -
  let ?jade = "ex_jade\<lparr>a_last_active_ts := ''2026-11-02 10:00:00''\<rparr>"
  have h1: "fst (getAgent (t0 + 1000) ''/repo'' ''JadeWolf'' ex_store_msg) = Ok ?jade"
    by code_simp
  have h2: "find (\<lambda>r. mr_message_id r = 1 \<and> mr_agent_id r = a_id ?jade)
              (message_recipients ex_store_msg) = Some ex_recipient_row"
    by code_simp
  have t: "(case mr_read_ts ex_recipient_row of None \<Rightarrow> toISOString (t0 + 1000) | Some t \<Rightarrow> t)
           = ''2026-11-02T10:00:01.000Z''"
    "toISOString (t0 + 1000) = ''2026-11-02T10:00:01.000Z''"
    "toISOString (t0 + 60000) = ''2026-11-02T10:01:00.000Z''"
    "(case mr_read_ts ex_recipient_row of None \<Rightarrow> ''2026-11-02T10:00:01.000Z'' | Some t \<Rightarrow> t)
           = ''2026-11-02T10:00:01.000Z''"
    by code_simp+
  from acknowledge_overwrites_ack [OF h1 h2, of "t0 + 60000"] obtain r s1 s2 where
    a: "acknowledge (t0 + 1000) ''/repo'' ''JadeWolf'' 1 ex_store_msg
        = (Ok \<lparr>acknowledged = True, ackAt = Some ''2026-11-02T10:00:01.000Z'',
               ack_readAt = Some r\<rparr>, s1)"
    and r: "r = ''2026-11-02T10:00:01.000Z''"
    and b: "acknowledge (t0 + 60000) ''/repo'' ''JadeWolf'' 1 s1
        = (Ok \<lparr>acknowledged = True, ackAt = Some ''2026-11-02T10:01:00.000Z'',
               ack_readAt = Some r\<rparr>, s2)"
    unfolding t by blast
  show ?thesis
    by (rule exI [of _ s1], rule exI [of _ s2]) (simp only: a b r simp_thms)
qed

text \<open>
  Two acknowledgments of message 1 by JadeWolf, one second and one minute after \<open>t0\<close>,
  return different \<open>ackAt\<close> values.
\<close>

theorem acknowledge_twice_differs:
  "fst (acknowledge (t0 + 1000) ''/repo'' ''JadeWolf'' 1 ex_store_msg)
     = Ok \<lparr>acknowledged = True, ackAt = Some ''2026-11-02T10:00:01.000Z'',
            ack_readAt = Some ''2026-11-02T10:00:01.000Z''\<rparr>
   \<and> fst (acknowledge (t0 + 60000) ''/repo'' ''JadeWolf'' 1
            (snd (acknowledge (t0 + 1000) ''/repo'' ''JadeWolf'' 1 ex_store_msg)))
     = Ok \<lparr>acknowledged = True, ackAt = Some ''2026-11-02T10:01:00.000Z'',
            ack_readAt = Some ''2026-11-02T10:00:01.000Z''\<rparr>"
  by code_simp

section \<open>Sending messages\<close>

lemma touched_refl [simp]: "touched s s"
  by (simp add: touched_def same_but_activity_def list_all2_same)

lemma touched_trans: "touched s s1 \<Longrightarrow> touched s1 s2 \<Longrightarrow> touched s s2"
proof -
  assume a: "touched s s1" and b: "touched s1 s2"
  have "list_all2 same_but_activity (agents s) (agents s2)"
  proof (rule list_all2_trans [of same_but_activity same_but_activity])
    show "list_all2 same_but_activity (agents s) (agents s1)" using a by (simp add: touched_def)
    show "list_all2 same_but_activity (agents s1) (agents s2)" using b by (simp add: touched_def)
    show "\<And>x y z. same_but_activity x y \<Longrightarrow> same_but_activity y z \<Longrightarrow> same_but_activity x z"
      by (auto simp: same_but_activity_def) (metis agent.surjective agent.update_convs(8))
  qed
  with a b show ?thesis by (simp add: touched_def)
qed

lemma touched_touch [simp]: "touched s (touch_agent now aid s)"
  by (simp add: touched_def touch_agent_def list_all2_map2 list_all2_same same_but_activity_def)

lemma list_all2_map_eq:
  "list_all2 P xs ys \<Longrightarrow> (\<And>x y. P x y \<Longrightarrow> f x = f y) \<Longrightarrow> map f xs = map f ys"
  by (induction rule: list_all2_induct) auto

lemma same_but_activity_key:
  assumes "same_but_activity a a'"
  shows "a_id a' = a_id a" and "a_project_id a' = a_project_id a" and "a_name a' = a_name a"
proof -
  from assms have e: "a'\<lparr>a_last_active_ts := a_last_active_ts a\<rparr> = a"
    by (simp add: same_but_activity_def)
  from arg_cong [OF e, of a_id] show "a_id a' = a_id a" by simp
  from arg_cong [OF e, of a_project_id] show "a_project_id a' = a_project_id a" by simp
  from arg_cong [OF e, of a_name] show "a_name a' = a_name a" by simp
qed

lemma touched_keys:
  assumes "touched s s'"
  shows "map (\<lambda>a. (a_id a, a_project_id a, a_name a)) (agents s')
         = map (\<lambda>a. (a_id a, a_project_id a, a_name a)) (agents s)"
proof -
  from assms have "list_all2 same_but_activity (agents s) (agents s')"
    by (simp add: touched_def)
  then have "map (\<lambda>a. (a_id a, a_project_id a, a_name a)) (agents s)
             = map (\<lambda>a. (a_id a, a_project_id a, a_name a)) (agents s')"
    by (rule list_all2_map_eq) (simp add: same_but_activity_key)
  then show ?thesis by simp
qed

lemma touched_ids: "touched s s' \<Longrightarrow> a_id ` set (agents s') = a_id ` set (agents s)"
proof -
  assume "touched s s'"
  from touched_keys [OF this]
  have "map fst (map (\<lambda>a. (a_id a, a_project_id a, a_name a)) (agents s'))
        = map fst (map (\<lambda>a. (a_id a, a_project_id a, a_name a)) (agents s))"
    by simp
  then have "map a_id (agents s') = map a_id (agents s)" by (simp add: comp_def)
  then have "set (map a_id (agents s')) = set (map a_id (agents s))" by simp
  then show ?thesis by simp
qed

lemma touched_getProject: "touched s s' \<Longrightarrow> getProject slug s' = getProject slug s"
  by (rule getProject_cong) (simp add: touched_def)

lemma resolves_touched:
  assumes "touched s s'"
  shows "resolves slug n s' = resolves slug n s"
proof -
  let ?key = "\<lambda>a. (a_id a, a_project_id a, a_name a)"
  from touched_keys [OF assms] have "set (map ?key (agents s')) = set (map ?key (agents s))"
    by simp
  then have img: "?key ` set (agents s') = ?key ` set (agents s)" by simp
  have k: "list_ex (\<lambda>a. a_project_id a = pid \<and> a_name a = n) (agents t)
           \<longleftrightarrow> (\<exists>k \<in> ?key ` set (agents t). fst (snd k) = pid \<and> snd (snd k) = n)" for pid t
    by (simp add: list_ex_iff)
  have "list_ex (\<lambda>a. a_project_id a = pid \<and> a_name a = n) (agents s')
        = list_ex (\<lambda>a. a_project_id a = pid \<and> a_name a = n) (agents s)" for pid
    unfolding k img ..
  then show ?thesis
    by (simp add: resolves_def touched_getProject [OF assms] split: result.splits)
qed

lemma getAgent_unresolved:
  assumes "\<not> resolves slug n s"
  shows "\<exists>e. getAgent now slug n s = (Err e, s)"
proof (cases "getProject slug s")
  case (Ok p)
  with assms have "\<not> list_ex (\<lambda>a. a_project_id a = p_id p \<and> a_name a = n) (agents s)"
    by (simp add: resolves_def)
  then have "find (\<lambda>a. a_project_id a = p_id p \<and> a_name a = n) (agents s) = None"
    by (simp add: find_None_iff list_ex_iff)
  with Ok show ?thesis by (simp add: getAgent_def Let_def)
next
  case (Err e)
  then show ?thesis by (simp add: getAgent_def)
next
  case (Throws x)
  then show ?thesis by (simp add: getProject_def Let_def split: option.splits)
qed

lemma getAgent_resolved:
  assumes "resolves slug n s"
  shows "\<exists>a. getAgent now slug n s = (Ok a, touch_agent now (a_id a) s) \<and> a \<in> set (agents s)"
proof -
  from assms obtain p where p: "getProject slug s = Ok p"
    and ex: "list_ex (\<lambda>a. a_project_id a = p_id p \<and> a_name a = n) (agents s)"
    by (auto simp: resolves_def split: result.splits)
  from ex have "find (\<lambda>a. a_project_id a = p_id p \<and> a_name a = n) (agents s) \<noteq> None"
    by (auto simp: find_None_iff list_ex_iff)
  then obtain a where f: "find (\<lambda>a. a_project_id a = p_id p \<and> a_name a = n) (agents s) = Some a"
    by blast
  then have "a \<in> set (agents s)" by (auto simp: find_Some_iff)
  with p f show ?thesis by (simp add: getAgent_def)
qed


lemma resolve_to_spec:
  "\<exists>res s'. resolve_to now slug pid sid names acc s = (res, s') \<and> touched s s'
     \<and> (case res of
           Ok rs \<Rightarrow>
             \<not> list_ex (\<lambda>n. toLowerCase n \<noteq> ''all'' \<and> \<not> resolves slug n s) names
             \<and> (\<forall>r \<in> set rs. r \<in> set acc \<or> fst (fst r) \<in> a_id ` set (agents s))
         | Err e \<Rightarrow> list_ex (\<lambda>n. toLowerCase n \<noteq> ''all'' \<and> \<not> resolves slug n s) names
         | Throws x \<Rightarrow> False)"
proof (induction names arbitrary: acc s)
  case Nil
  show ?case by simp
next
  case (Cons n rest)
  show ?case
  proof (cases "toLowerCase n = ''all''")
    case True
    from Cons.IH [of "acc @ map (\<lambda>a. (a, To)) (other_agents pid sid s)" s]
    obtain res s' where r: "resolve_to now slug pid sid rest
          (acc @ map (\<lambda>a. (a, To)) (other_agents pid sid s)) s = (res, s')"
      and t: "touched s s'"
      and c: "case res of
           Ok rs \<Rightarrow>
             \<not> list_ex (\<lambda>n. toLowerCase n \<noteq> ''all'' \<and> \<not> resolves slug n s) rest
             \<and> (\<forall>r \<in> set rs. r \<in> set (acc @ map (\<lambda>a. (a, To)) (other_agents pid sid s))
                    \<or> fst (fst r) \<in> a_id ` set (agents s))
         | Err e \<Rightarrow> list_ex (\<lambda>n. toLowerCase n \<noteq> ''all'' \<and> \<not> resolves slug n s) rest
         | Throws x \<Rightarrow> False"
      by blast
    have o: "fst (fst r) \<in> a_id ` set (agents s)"
      if "r \<in> set (acc @ map (\<lambda>a. (a, To)) (other_agents pid sid s))" and "r \<notin> set acc" for r
      using that by (auto simp: other_agents_def)
    from c o have "case res of
           Ok rs \<Rightarrow>
             \<not> list_ex (\<lambda>n. toLowerCase n \<noteq> ''all'' \<and> \<not> resolves slug n s) (n # rest)
             \<and> (\<forall>r \<in> set rs. r \<in> set acc \<or> fst (fst r) \<in> a_id ` set (agents s))
         | Err e \<Rightarrow> list_ex (\<lambda>n. toLowerCase n \<noteq> ''all'' \<and> \<not> resolves slug n s) (n # rest)
         | Throws x \<Rightarrow> False"
      using True by (cases res) (simp_all, blast)
    with r t True show ?thesis by simp
  next
    case False
    show ?thesis
    proof (cases "resolves slug n s")
      case no: False
      from getAgent_unresolved [OF no, of now] obtain e where "getAgent now slug n s = (Err e, s)"
        by blast
      with False no show ?thesis by simp
    next
      case yes: True
      from getAgent_resolved [OF yes, of now] obtain a where
        ga: "getAgent now slug n s = (Ok a, touch_agent now (a_id a) s)" and a: "a \<in> set (agents s)"
        by blast
      let ?s1 = "touch_agent now (a_id a) s"
      have t1: "touched s ?s1" by simp
      from Cons.IH [of "acc @ [((a_id a, a_name a), To)]" ?s1]
      obtain res s' where r: "resolve_to now slug pid sid rest (acc @ [((a_id a, a_name a), To)]) ?s1
            = (res, s')"
        and t: "touched ?s1 s'"
        and c: "case res of
           Ok rs \<Rightarrow>
             \<not> list_ex (\<lambda>n. toLowerCase n \<noteq> ''all'' \<and> \<not> resolves slug n ?s1) rest
             \<and> (\<forall>r \<in> set rs. r \<in> set (acc @ [((a_id a, a_name a), To)])
                    \<or> fst (fst r) \<in> a_id ` set (agents ?s1))
         | Err e \<Rightarrow> list_ex (\<lambda>n. toLowerCase n \<noteq> ''all'' \<and> \<not> resolves slug n ?s1) rest
         | Throws x \<Rightarrow> False"
        by blast
      have ids: "a_id ` set (agents ?s1) = a_id ` set (agents s)"
        by (rule touched_ids [OF t1])
      have rs: "resolves slug m ?s1 = resolves slug m s" for m
        by (rule resolves_touched [OF t1])
      from c a have "case res of
           Ok rs \<Rightarrow>
             \<not> list_ex (\<lambda>n. toLowerCase n \<noteq> ''all'' \<and> \<not> resolves slug n s) (n # rest)
             \<and> (\<forall>r \<in> set rs. r \<in> set acc \<or> fst (fst r) \<in> a_id ` set (agents s))
         | Err e \<Rightarrow> list_ex (\<lambda>n. toLowerCase n \<noteq> ''all'' \<and> \<not> resolves slug n s) (n # rest)
         | Throws x \<Rightarrow> False"
        unfolding ids rs using yes by (cases res) auto
      moreover have "touched s s'" using t1 t by (rule touched_trans)
      ultimately show ?thesis using r ga False by simp
    qed
  qed
qed

lemma resolve_cc_spec:
  "\<exists>res s'. resolve_cc now slug names acc s = (res, s') \<and> touched s s'
     \<and> (case res of
           Ok rs \<Rightarrow>
             \<not> list_ex (\<lambda>n. \<not> resolves slug n s) names
             \<and> (acc \<noteq> [] \<longrightarrow> rs \<noteq> [])
             \<and> (names = [] \<longrightarrow> rs = acc)
             \<and> (\<forall>r \<in> set rs. r \<in> set acc \<or> fst (fst r) \<in> a_id ` set (agents s))
         | Err e \<Rightarrow> list_ex (\<lambda>n. \<not> resolves slug n s) names
         | Throws x \<Rightarrow> False)"
proof (induction names arbitrary: acc s)
  case Nil
  show ?case by simp
next
  case (Cons n rest)
  show ?case
  proof (cases "resolves slug n s")
    case no: False
    from getAgent_unresolved [OF no, of now] obtain e where "getAgent now slug n s = (Err e, s)"
      by blast
    with no show ?thesis by simp
  next
    case yes: True
    from getAgent_resolved [OF yes, of now] obtain a where
      ga: "getAgent now slug n s = (Ok a, touch_agent now (a_id a) s)" and a: "a \<in> set (agents s)"
      by blast
    let ?s1 = "touch_agent now (a_id a) s"
    have t1: "touched s ?s1" by simp
    from Cons.IH [of "acc @ [((a_id a, a_name a), Cc)]" ?s1]
    obtain res s' where r: "resolve_cc now slug rest (acc @ [((a_id a, a_name a), Cc)]) ?s1 = (res, s')"
      and t: "touched ?s1 s'"
      and c: "case res of
           Ok rs \<Rightarrow>
             \<not> list_ex (\<lambda>n. \<not> resolves slug n ?s1) rest
             \<and> (acc @ [((a_id a, a_name a), Cc)] \<noteq> [] \<longrightarrow> rs \<noteq> [])
             \<and> (rest = [] \<longrightarrow> rs = acc @ [((a_id a, a_name a), Cc)])
             \<and> (\<forall>r \<in> set rs. r \<in> set (acc @ [((a_id a, a_name a), Cc)])
                    \<or> fst (fst r) \<in> a_id ` set (agents ?s1))
         | Err e \<Rightarrow> list_ex (\<lambda>n. \<not> resolves slug n ?s1) rest
         | Throws x \<Rightarrow> False"
      by blast
    have ids: "a_id ` set (agents ?s1) = a_id ` set (agents s)"
      by (rule touched_ids [OF t1])
    have rs: "resolves slug m ?s1 = resolves slug m s" for m
      by (rule resolves_touched [OF t1])
    from c a have "case res of
           Ok rs \<Rightarrow>
             \<not> list_ex (\<lambda>n. \<not> resolves slug n s) (n # rest)
             \<and> (acc \<noteq> [] \<longrightarrow> rs \<noteq> [])
             \<and> (n # rest = [] \<longrightarrow> rs = acc)
             \<and> (\<forall>r \<in> set rs. r \<in> set acc \<or> fst (fst r) \<in> a_id ` set (agents s))
         | Err e \<Rightarrow> list_ex (\<lambda>n. \<not> resolves slug n s) (n # rest)
         | Throws x \<Rightarrow> False"
      unfolding ids rs using yes by (cases res) auto
    moreover have "touched s s'" using t1 t by (rule touched_trans)
    ultimately show ?thesis using r ga by simp
  qed
qed

text \<open>
  Either \<open>sendMessage\<close> returns an error having written nothing but \<open>last_active_ts\<close>, or
  every entry resolved and it goes on to \<open>create_message\<close> with a non-empty recipient list
  of existing agents.
\<close>

lemma sendMessage_cases:
  "(\<exists>e s'. sendMessage now input s = (Err e, s') \<and> touched s s')
   \<or> (\<not> unresolved_entry input s
      \<and> (\<exists>project sender rs s3.
            getProject (sm_projectSlug input) s = Ok project
          \<and> fst (getAgent now (sm_projectSlug input) (sm_sender input) s) = Ok sender
          \<and> touched s s3 \<and> rs \<noteq> []
          \<and> (\<forall>r \<in> set rs. fst (fst r) \<in> a_id ` set (agents s3))
          \<and> sendMessage now input s
              = create_message now (p_id project) (a_id sender) input rs s3))"
proof (cases "getProject (sm_projectSlug input) s")
  case (Err e)
  then show ?thesis by (simp add: sendMessage_def)
next
  case (Throws x)
  then show ?thesis by (simp add: getProject_def Let_def split: option.splits)
next
  case (Ok project)
  note proj = Ok
  show ?thesis
  proof (cases "resolves (sm_projectSlug input) (sm_sender input) s")
    case False
    from getAgent_unresolved [OF False, of now] obtain e where
      "getAgent now (sm_projectSlug input) (sm_sender input) s = (Err e, s)" by blast
    with proj show ?thesis by (simp add: sendMessage_def)
  next
    case True
    from getAgent_resolved [OF True, of now] obtain sender where
      ga: "getAgent now (sm_projectSlug input) (sm_sender input) s
           = (Ok sender, touch_agent now (a_id sender) s)"
      by blast
    let ?slug = "sm_projectSlug input"
    let ?s1 = "touch_agent now (a_id sender) s"
    have t1: "touched s ?s1" by simp
    from resolve_to_spec [of now ?slug "p_id project" "a_id sender" "sm_to input" "[]" ?s1]
    obtain res2 s2 where
      r2: "resolve_to now ?slug (p_id project) (a_id sender) (sm_to input) [] ?s1 = (res2, s2)"
      and t2: "touched ?s1 s2"
      and c2: "case res2 of
           Ok rs \<Rightarrow>
             \<not> list_ex (\<lambda>n. toLowerCase n \<noteq> ''all'' \<and> \<not> resolves ?slug n ?s1) (sm_to input)
             \<and> (\<forall>r \<in> set rs. r \<in> set [] \<or> fst (fst r) \<in> a_id ` set (agents ?s1))
         | Err e \<Rightarrow> list_ex (\<lambda>n. toLowerCase n \<noteq> ''all'' \<and> \<not> resolves ?slug n ?s1) (sm_to input)
         | Throws x \<Rightarrow> False"
      by blast
    have ts2: "touched s s2" using t1 t2 by (rule touched_trans)
    show ?thesis
    proof (cases res2)
      case (Err e)
      with proj ga r2 ts2 show ?thesis by (simp add: sendMessage_def)
    next
      case (Throws x)
      with c2 show ?thesis by simp
    next
      case (Ok toRecipients)
      let ?cc = "case sm_cc input of None \<Rightarrow> [] | Some cc \<Rightarrow> cc"
      from resolve_cc_spec [of now ?slug ?cc toRecipients s2]
      obtain res3 s3 where
        r3: "resolve_cc now ?slug ?cc toRecipients s2 = (res3, s3)"
        and t3: "touched s2 s3"
        and c3: "case res3 of
           Ok rs \<Rightarrow>
             \<not> list_ex (\<lambda>n. \<not> resolves ?slug n s2) ?cc
             \<and> (toRecipients \<noteq> [] \<longrightarrow> rs \<noteq> [])
             \<and> (?cc = [] \<longrightarrow> rs = toRecipients)
             \<and> (\<forall>r \<in> set rs. r \<in> set toRecipients \<or> fst (fst r) \<in> a_id ` set (agents s2))
         | Err e \<Rightarrow> list_ex (\<lambda>n. \<not> resolves ?slug n s2) ?cc
         | Throws x \<Rightarrow> False"
        by blast
      have ts3: "touched s s3" using ts2 t3 by (rule touched_trans)
      show ?thesis
      proof (cases res3)
        case (Err e)
        with proj ga r2 Ok r3 ts3 show ?thesis by (simp add: sendMessage_def)
      next
        case (Throws x)
        with c3 show ?thesis by simp
      next
        case ok3: (Ok rs)
        show ?thesis
        proof (cases "rs = []")
          case True
          with proj ga r2 Ok r3 ok3 ts3 show ?thesis by (simp add: sendMessage_def)
        next
          case False
          have i1: "a_id ` set (agents ?s1) = a_id ` set (agents s3)"
            using touched_ids [OF t1] touched_ids [OF ts3] by simp
          have i2: "a_id ` set (agents s2) = a_id ` set (agents s3)"
            using touched_ids [OF t3] by simp
          have res1: "resolves ?slug m ?s1 = resolves ?slug m s" for m
            by (rule resolves_touched [OF t1])
          have res2': "resolves ?slug m s2 = resolves ?slug m s" for m
            by (rule resolves_touched [OF ts2])
          from c2 Ok c3 ok3 have un: "\<not> unresolved_entry input s"
            by (simp add: unresolved_entry_def res1 res2')
          from c2 Ok c3 ok3 have ids: "\<forall>r \<in> set rs. fst (fst r) \<in> a_id ` set (agents s3)"
            unfolding i1 i2 by auto
          have sm: "sendMessage now input s
                    = create_message now (p_id project) (a_id sender) input rs s3"
            using proj ga r2 Ok r3 ok3 False by (simp add: sendMessage_def)
          have "fst (getAgent now ?slug (sm_sender input) s) = Ok sender" using ga by simp
          with un proj ts3 False ids sm show ?thesis by blast
        qed
      qed
    qed
  qed
qed

lemma insert_recipients_grows:
  "\<exists>msg extra s'. insert_recipients mid rs s = (msg, s')
     \<and> projects s' = projects s \<and> agents s' = agents s \<and> messages s' = messages s
     \<and> file_reservations s' = file_reservations s
     \<and> message_recipients s' = message_recipients s @ extra
     \<and> (\<forall>x \<in> set extra. mr_message_id x = mid)"
proof (induction rs arbitrary: s)
  case Nil
  show ?case by simp
next
  case (Cons r rs)
  show ?case
  proof (cases "insert_recipient mid r s")
    case (Inl msg)
    then show ?thesis by simp
  next
    case (Inr s1)
    then have s1: "s1 = s\<lparr>message_recipients := message_recipients s @
                  [\<lparr>mr_message_id = mid, mr_agent_id = fst (fst r), mr_kind = snd r,
                    mr_read_ts = None, mr_ack_ts = None\<rparr>]\<rparr>"
      by (simp add: insert_recipient_def split: if_splits)
    from Cons.IH [of s1] obtain msg extra s' where
      "insert_recipients mid rs s1 = (msg, s')" "projects s' = projects s1"
      "agents s' = agents s1" "messages s' = messages s1"
      "file_reservations s' = file_reservations s1"
      "message_recipients s' = message_recipients s1 @ extra"
      "\<forall>x \<in> set extra. mr_message_id x = mid"
      by blast
    then show ?thesis
      using Inr
      by (intro exI [of _ msg]
                exI [of _ "\<lparr>mr_message_id = mid, mr_agent_id = fst (fst r), mr_kind = snd r,
                             mr_read_ts = None, mr_ack_ts = None\<rparr> # extra"]
                exI [of _ s'])
         (simp add: s1)
  qed
qed

lemma create_message_keeps_invariants:
  assumes ne: "rs \<noteq> []"
      and ids: "\<forall>r \<in> set rs. fst (fst r) \<in> a_id ` set (agents s)"
      and inv1: "every_message_has_recipient s"
      and inv2: "recipients_reference_messages s"
  shows "every_message_has_recipient (snd (create_message now pid sid input rs s))
       \<and> recipients_reference_messages (snd (create_message now pid sid input rs s))"
proof (cases "insert_message now pid sid input (names_of_kind To rs) (names_of_kind Cc rs) s")
  case (Inl msg)
  with inv1 inv2 show ?thesis by (simp add: create_message_def)
next
  case (Inr p)
  obtain mid s1 where p: "p = (mid, s1)" by (cases p)
  let ?row = "\<lparr>m_id = next_id (map m_id (messages s)), m_project_id = pid, m_sender_id = sid,
                m_thread_id = sm_threadId input, m_subject = sm_subject input,
                m_body_md = sm_bodyMd input, m_to_agents = names_of_kind To rs,
                m_cc_agents = names_of_kind Cc rs,
                m_importance = (case sm_importance input of None \<Rightarrow> Normal | Some i \<Rightarrow> i),
                m_ack_required = (if sm_ackRequired input = Some True then 1 else 0),
                m_created_ts = sqlite_datetime now\<rparr>"
  from Inr have "pid \<in> p_id ` set (projects s) \<and> sid \<in> a_id ` set (agents s)"
    by (simp add: insert_message_def split: if_splits)
  then have e: "insert_message now pid sid input (names_of_kind To rs) (names_of_kind Cc rs) s
             = Inr (next_id (map m_id (messages s)), s\<lparr>messages := messages s @ [?row]\<rparr>)"
    by (simp add: insert_message_def Let_def)
  have "Inr p = (Inr (next_id (map m_id (messages s)), s\<lparr>messages := messages s @ [?row]\<rparr>)
                  :: string + int \<times> store)"
    by (rule trans [OF Inr [symmetric] e])
  then have "p = (next_id (map m_id (messages s)), s\<lparr>messages := messages s @ [?row]\<rparr>)"
    by (simp only: sum.inject)
  from this [unfolded p]
  have "mid = next_id (map m_id (messages s)) \<and> s1 = s\<lparr>messages := messages s @ [?row]\<rparr>"
    by (simp only: prod.inject)
  then have mid: "mid = next_id (map m_id (messages s))"
    and s1: "s1 = s\<lparr>messages := messages s @ [?row]\<rparr>"
    by (rule conjunct1, rule conjunct2)
  have row: "m_id ?row = mid" by (simp add: mid)
  from ne obtain r rest where rs: "rs = r # rest" by (cases rs) auto
  have fresh: "mr_message_id x \<noteq> mid" if "x \<in> set (message_recipients s)" for x
  proof -
    from inv2 that have "mr_message_id x \<in> set (map m_id (messages s))"
      by (auto simp: recipients_reference_messages_def list_all_iff)
    from next_id_fresh [OF this] show ?thesis by (simp add: mid)
  qed
  let ?rowr = "\<lparr>mr_message_id = mid, mr_agent_id = fst (fst r), mr_kind = snd r,
               mr_read_ts = None, mr_ack_ts = None\<rparr>"
  let ?s2 = "s1\<lparr>message_recipients := message_recipients s1 @ [?rowr]\<rparr>"
  have "(mid, fst (fst r)) \<notin> (\<lambda>x. (mr_message_id x, mr_agent_id x)) ` set (message_recipients s1)"
    using fresh by (auto simp: s1)
  moreover have "mid \<in> m_id ` set (messages s1)" by (simp add: s1 mid)
  moreover have "fst (fst r) \<in> a_id ` set (agents s1)" using ids by (simp add: rs s1)
  ultimately have ir: "insert_recipient mid r s1 = Inr ?s2"
    by (simp add: insert_recipient_def)
  from insert_recipients_grows [of mid rest ?s2] obtain msg extra s' where
    g: "insert_recipients mid rest ?s2 = (msg, s')"
    and m: "messages s' = messages ?s2"
    and rc: "message_recipients s' = message_recipients ?s2 @ extra"
    and ex: "\<forall>x \<in> set extra. mr_message_id x = mid"
    by blast
  have out: "snd (create_message now pid sid input rs s) = s'"
    using Inr p ir g by (simp add: create_message_def rs split: option.splits)
  have m': "messages s' = messages s @ [?row]" using m by (simp add: s1)
  have rc': "message_recipients s' = message_recipients s @ ?rowr # extra"
    using rc by (simp add: s1)
  have "every_message_has_recipient s'"
    using inv1 by (auto simp: every_message_has_recipient_def list_all_iff m' rc' mid)
  moreover have "recipients_reference_messages s'"
    using inv2 ex by (auto simp: recipients_reference_messages_def list_all_iff m' rc' mid)
  ultimately show ?thesis by (simp add: out)
qed

lemma touched_invariants:
  assumes "touched s s'"
  shows "every_message_has_recipient s' = every_message_has_recipient s"
    and "recipients_reference_messages s' = recipients_reference_messages s"
  using assms
  by (simp_all add: touched_def every_message_has_recipient_def recipients_reference_messages_def)

text \<open>
  C3. If an entry of \<open>to\<close> (other than the broadcast alias) or of \<open>cc\<close> does not resolve to
  an agent of the project, \<open>sendMessage\<close> returns an error and the store differs from the
  one before at most in the \<open>last_active_ts\<close> of agents: no message row and no recipient
  row is created. And from a store in which every message has a recipient row and
  every recipient row refers to a message, any \<open>sendMessage\<close>, whatever it returns, leads
  to such a store again: no message row is left with zero recipient rows.
\<close>

theorem sendMessage_all_or_nothing:
  "(unresolved_entry input s \<longrightarrow>
      (\<exists>e s'. sendMessage now input s = (Err e, s') \<and> touched s s'
             \<and> messages s' = messages s \<and> message_recipients s' = message_recipients s))
   \<and> (every_message_has_recipient s \<and> recipients_reference_messages s \<longrightarrow>
        every_message_has_recipient (snd (sendMessage now input s))
      \<and> recipients_reference_messages (snd (sendMessage now input s)))"
proof (rule conjI; rule impI)
  assume u: "unresolved_entry input s"
  have "\<exists>e s'. sendMessage now input s = (Err e, s') \<and> touched s s'"
    using sendMessage_cases [of now input s]
  proof (rule disjE)
    assume "\<exists>e s'. sendMessage now input s = (Err e, s') \<and> touched s s'"
    then show ?thesis .
  next
    assume "\<not> unresolved_entry input s
      \<and> (\<exists>project sender rs s3.
            getProject (sm_projectSlug input) s = Ok project
          \<and> fst (getAgent now (sm_projectSlug input) (sm_sender input) s) = Ok sender
          \<and> touched s s3 \<and> rs \<noteq> []
          \<and> (\<forall>r \<in> set rs. fst (fst r) \<in> a_id ` set (agents s3))
          \<and> sendMessage now input s
              = create_message now (p_id project) (a_id sender) input rs s3)"
    then have "\<not> unresolved_entry input s" by (rule conjunct1)
    with u show ?thesis by simp
  qed
  then obtain e s' where "sendMessage now input s = (Err e, s')" and "touched s s'"
    by blast
  then show "\<exists>e s'. sendMessage now input s = (Err e, s') \<and> touched s s'
             \<and> messages s' = messages s \<and> message_recipients s' = message_recipients s"
    by (auto simp: touched_def)
next
  assume inv: "every_message_has_recipient s \<and> recipients_reference_messages s"
  from sendMessage_cases [of now input s]
  show "every_message_has_recipient (snd (sendMessage now input s))
      \<and> recipients_reference_messages (snd (sendMessage now input s))"
  proof (rule disjE)
    assume "\<exists>e s'. sendMessage now input s = (Err e, s') \<and> touched s s'"
    then obtain e s' where "sendMessage now input s = (Err e, s')" and "touched s s'" by blast
    with inv show ?thesis by (simp add: touched_invariants)
  next
    assume "\<not> unresolved_entry input s
      \<and> (\<exists>project sender rs s3.
            getProject (sm_projectSlug input) s = Ok project
          \<and> fst (getAgent now (sm_projectSlug input) (sm_sender input) s) = Ok sender
          \<and> touched s s3 \<and> rs \<noteq> []
          \<and> (\<forall>r \<in> set rs. fst (fst r) \<in> a_id ` set (agents s3))
          \<and> sendMessage now input s
              = create_message now (p_id project) (a_id sender) input rs s3)"
    then have "\<exists>project sender rs s3.
            getProject (sm_projectSlug input) s = Ok project
          \<and> fst (getAgent now (sm_projectSlug input) (sm_sender input) s) = Ok sender
          \<and> touched s s3 \<and> rs \<noteq> []
          \<and> (\<forall>r \<in> set rs. fst (fst r) \<in> a_id ` set (agents s3))
          \<and> sendMessage now input s
              = create_message now (p_id project) (a_id sender) input rs s3"
      by (rule conjunct2)
    then obtain project sender rs s3 where
      "getProject (sm_projectSlug input) s = Ok project
          \<and> fst (getAgent now (sm_projectSlug input) (sm_sender input) s) = Ok sender
          \<and> touched s s3 \<and> rs \<noteq> []
          \<and> (\<forall>r \<in> set rs. fst (fst r) \<in> a_id ` set (agents s3))
          \<and> sendMessage now input s
              = create_message now (p_id project) (a_id sender) input rs s3"
      by (elim exE)
    then have t: "touched s s3" and ne: "rs \<noteq> []"
      and ids: "\<forall>r \<in> set rs. fst (fst r) \<in> a_id ` set (agents s3)"
      and sm: "sendMessage now input s = create_message now (p_id project) (a_id sender) input rs s3"
      by simp_all
    from inv t have "every_message_has_recipient s3" "recipients_reference_messages s3"
      by (simp_all add: touched_invariants)
    from create_message_keeps_invariants [OF ne ids this] show ?thesis
      by (simp add: sm)
  qed
qed



theorem sendMessage_all_or_nothing_witness:
  "unresolved_entry (ex_send ''AmberFox'' [''JadeWolf'', ''NoSuchAgent''] None) ex_store
   \<and> (\<exists>e s'. sendMessage t0 (ex_send ''AmberFox'' [''JadeWolf'', ''NoSuchAgent''] None) ex_store
                 = (Err e, s')
              \<and> messages s' = messages ex_store
              \<and> message_recipients s' = message_recipients ex_store)
   \<and> every_message_has_recipient ex_store_msg \<and> recipients_reference_messages ex_store_msg
   \<and> messages ex_store_msg \<noteq> []
   \<and> every_message_has_recipient
        (snd (sendMessage (t0 + 1000) (ex_send ''JadeWolf'' [''all''] None) ex_store_msg))
   \<and> recipients_reference_messages
        (snd (sendMessage (t0 + 1000) (ex_send ''JadeWolf'' [''all''] None) ex_store_msg))"
proof -
  have u: "unresolved_entry (ex_send ''AmberFox'' [''JadeWolf'', ''NoSuchAgent''] None) ex_store"
    by code_simp
  have i: "every_message_has_recipient ex_store_msg \<and> recipients_reference_messages ex_store_msg"
    by code_simp
  have m: "messages ex_store_msg \<noteq> []" by code_simp
  from sendMessage_all_or_nothing
         [of "ex_send ''AmberFox'' [''JadeWolf'', ''NoSuchAgent''] None" ex_store t0] u
  have a: "\<exists>e s'. sendMessage t0 (ex_send ''AmberFox'' [''JadeWolf'', ''NoSuchAgent''] None) ex_store
                 = (Err e, s')
              \<and> messages s' = messages ex_store
              \<and> message_recipients s' = message_recipients ex_store"
    by blast
  from sendMessage_all_or_nothing
         [of "ex_send ''JadeWolf'' [''all''] None" ex_store_msg "t0 + 1000"] i
  have b: "every_message_has_recipient
             (snd (sendMessage (t0 + 1000) (ex_send ''JadeWolf'' [''all''] None) ex_store_msg))
         \<and> recipients_reference_messages
             (snd (sendMessage (t0 + 1000) (ex_send ''JadeWolf'' [''all''] None) ex_store_msg))"
    by blast
  from u a i m b show ?thesis by (intro conjI) simp_all
qed

text \<open>
  The error path is not free of writes: the sender is looked up before the recipients,
  and the lookup refreshes the sender's \<open>last_active_ts\<close>.
\<close>

theorem sendMessage_error_touches_sender:
  "fst (sendMessage (t0 + 5000) (ex_send ''AmberFox'' [''NoSuchAgent''] None) ex_store)
     = Err \<lparr>err_type = ''AGENT_NOT_FOUND'', err_message = ''Agent not found: NoSuchAgent'',
             recoverable = True, suggestions = None\<rparr>
   \<and> snd (sendMessage (t0 + 5000) (ex_send ''AmberFox'' [''NoSuchAgent''] None) ex_store)
       \<noteq> ex_store
   \<and> agents (snd (sendMessage (t0 + 5000) (ex_send ''AmberFox'' [''NoSuchAgent''] None) ex_store))
       = [ex_amber\<lparr>a_last_active_ts := ''2026-11-02 10:00:05''\<rparr>, ex_jade]"
  by code_simp





section \<open>Ensuring projects\<close>

lemma find_first_match:
  "find P xs = None \<Longrightarrow> P x \<Longrightarrow> find P (xs @ [x]) = Some x"
  by (induction xs) (auto split: if_splits)

lemma ensureProject_existing:
  assumes "find (\<lambda>p. p_human_key p = key \<or> p_slug p = projectSlug key) (projects s) = Some p"
  shows "ensureProject_among others now key s = (Ok p, s)"
  using assms by (simp add: ensureProject_among_def Let_def)

lemma ensureProject_fresh:
  assumes none: "find (\<lambda>p. p_human_key p = key \<or> p_slug p = projectSlug key) (projects s) = None"
  shows "ensureProject now key s =
           (Ok \<lparr>p_id = next_id (map p_id (projects s)), p_slug = projectSlug key,
                p_human_key = key, p_created_at = sqlite_datetime now\<rparr>,
            s\<lparr>projects := projects s @
                 [\<lparr>p_id = next_id (map p_id (projects s)), p_slug = projectSlug key,
                   p_human_key = key, p_created_at = sqlite_datetime now\<rparr>]\<rparr>)"
proof -
  let ?row = "\<lparr>p_id = next_id (map p_id (projects s)), p_slug = projectSlug key,
               p_human_key = key, p_created_at = sqlite_datetime now\<rparr>"
  from none have no: "\<forall>p \<in> set (projects s). p_human_key p \<noteq> key \<and> p_slug p \<noteq> projectSlug key"
    by (auto simp: find_None_iff)
  then have ins: "insert_project now (projectSlug key) key s
                  = Inr (s\<lparr>projects := projects s @ [?row]\<rparr>)"
    by (auto simp: insert_project_def)
  from no have "find (\<lambda>p. p_slug p = projectSlug key) (projects s) = None"
    by (auto simp: find_None_iff)
  then have "find (\<lambda>p. p_slug p = projectSlug key) (projects s @ [?row]) = Some ?row"
    by (rule find_first_match) simp
  with none ins show ?thesis
    by (simp add: ensureProject_def ensureProject_among_def Let_def)
qed

lemma ensureProject_lost_race:
  assumes none: "find (\<lambda>p. p_human_key p = key \<or> p_slug p = projectSlug key) (projects s) = None"
      and taken: "projectSlug key \<in> p_slug ` set (projects (others s))
                  \<or> key \<in> p_human_key ` set (projects (others s))"
  shows "\<exists>e. ensureProject_among others now key s = (Err e, others s)
             \<and> err_type e = ''PROJECT_CREATE_FAILED'' \<and> \<not> recoverable e"
  using assms by (auto simp: ensureProject_among_def insert_project_def Let_def)

text \<open>
  C9. Two calls of \<open>ensureProject\<close> with the same key, one after the other, return the same
  project row; the second call leaves the store as the first left it, and that store
  holds exactly one row for the key. A call whose SELECT finds no row and whose INSERT
  comes after another connection has ensured the same key does not re-read: it returns
  the non-recoverable error \<open>PROJECT_CREATE_FAILED\<close> and writes nothing; a call made
  afterwards returns the row of the connection that won.
\<close>

theorem ensureProject_idempotent:
  assumes d: "distinct (map p_slug (projects s))" and sd: "slugs_derived s"
  shows "(\<exists>p s1. ensureProject now1 key s = (Ok p, s1)
              \<and> ensureProject now2 key s1 = (Ok p, s1)
              \<and> length (rows_for_key key s1) = 1
              \<and> distinct (map p_slug (projects s1)) \<and> slugs_derived s1)
       \<and> (rows_for_key key s = [] \<longrightarrow>
            (\<exists>e p s1. ensureProject now0 key s = (Ok p, s1)
                \<and> ensureProject_among (\<lambda>s. snd (ensureProject now0 key s)) now1 key s = (Err e, s1)
                \<and> err_type e = ''PROJECT_CREATE_FAILED'' \<and> \<not> recoverable e
                \<and> ensureProject now2 key s1 = (Ok p, s1)))"
proof (rule conjI)
  let ?P = "\<lambda>p. p_human_key p = key \<or> p_slug p = projectSlug key"
  show "\<exists>p s1. ensureProject now1 key s = (Ok p, s1)
              \<and> ensureProject now2 key s1 = (Ok p, s1)
              \<and> length (rows_for_key key s1) = 1
              \<and> distinct (map p_slug (projects s1)) \<and> slugs_derived s1"
  proof (cases "find ?P (projects s)")
    case (Some p)
    have e: "ensureProject now key s = (Ok p, s)" for now
      unfolding ensureProject_def by (rule ensureProject_existing [OF Some])
    from Some have pin: "p \<in> set (projects s)" and pp: "?P p"
      by (auto simp: find_Some_iff)
    have slug: "p_slug q = projectSlug key" if "q \<in> set (projects s)" "?P q" for q
      using that sd by (auto simp: slugs_derived_def list_all_iff)
    have "q = p" if "q \<in> set (projects s)" "?P q" for q
    proof -
      from slug [OF that] slug [OF pin pp] have "p_slug q = p_slug p" by simp
      with d that(1) pin show ?thesis by (simp add: distinct_map inj_on_def)
    qed
    then have "filter ?P (projects s) = filter (\<lambda>q. q = p) (projects s)"
      using pp by (intro filter_cong) auto
    moreover from d have "distinct (projects s)" by (simp add: distinct_map)
    ultimately have "length (rows_for_key key s) = 1"
      using pin by (simp add: rows_for_key_def distinct_length_filter)
    with e d sd show ?thesis by blast
  next
    case None
    let ?row = "\<lparr>p_id = next_id (map p_id (projects s)), p_slug = projectSlug key,
                 p_human_key = key, p_created_at = sqlite_datetime now1\<rparr>"
    let ?s1 = "s\<lparr>projects := projects s @ [?row]\<rparr>"
    have first: "ensureProject now1 key s = (Ok ?row, ?s1)"
      by (rule ensureProject_fresh [OF None])
    have "find ?P (projects ?s1) = Some ?row"
      using find_first_match [OF None, of ?row] by simp
    then have second: "ensureProject now2 key ?s1 = (Ok ?row, ?s1)"
      unfolding ensureProject_def by (rule ensureProject_existing)
    from None have no: "\<forall>p \<in> set (projects s). \<not> ?P p" by (auto simp: find_None_iff)
    then have "filter ?P (projects s) = []" by (auto simp: filter_empty_conv)
    then have one: "length (rows_for_key key ?s1) = 1" by (simp add: rows_for_key_def)
    from no d have d1: "distinct (map p_slug (projects ?s1))" by auto
    from sd have sd1: "slugs_derived ?s1" by (simp add: slugs_derived_def)
    from first second one d1 sd1 show ?thesis by blast
  qed
next
  let ?P = "\<lambda>p. p_human_key p = key \<or> p_slug p = projectSlug key"
  show "rows_for_key key s = [] \<longrightarrow>
            (\<exists>e p s1. ensureProject now0 key s = (Ok p, s1)
                \<and> ensureProject_among (\<lambda>s. snd (ensureProject now0 key s)) now1 key s = (Err e, s1)
                \<and> err_type e = ''PROJECT_CREATE_FAILED'' \<and> \<not> recoverable e
                \<and> ensureProject now2 key s1 = (Ok p, s1))"
  proof
    assume "rows_for_key key s = []"
    then have None: "find ?P (projects s) = None"
      by (auto simp: rows_for_key_def filter_empty_conv find_None_iff)
    let ?row = "\<lparr>p_id = next_id (map p_id (projects s)), p_slug = projectSlug key,
                 p_human_key = key, p_created_at = sqlite_datetime now0\<rparr>"
    let ?s1 = "s\<lparr>projects := projects s @ [?row]\<rparr>"
    have win: "ensureProject now0 key s = (Ok ?row, ?s1)"
      by (rule ensureProject_fresh [OF None])
    have "projectSlug key \<in> p_slug ` set (projects (snd (ensureProject now0 key s)))
          \<or> key \<in> p_human_key ` set (projects (snd (ensureProject now0 key s)))"
      by (simp add: win)
    from ensureProject_lost_race [of key s "\<lambda>s. snd (ensureProject now0 key s)", OF None this, of now1]
    obtain e where lose: "ensureProject_among (\<lambda>s. snd (ensureProject now0 key s)) now1 key s = (Err e, ?s1)"
      and ty: "err_type e = ''PROJECT_CREATE_FAILED''" and nr: "\<not> recoverable e"
      by (auto simp: win)
    have "find ?P (projects ?s1) = Some ?row"
      using find_first_match [OF None, of ?row] by simp
    then have again: "ensureProject now2 key ?s1 = (Ok ?row, ?s1)"
      unfolding ensureProject_def by (rule ensureProject_existing)
    from win lose ty nr again
    show "\<exists>e p s1. ensureProject now0 key s = (Ok p, s1)
                \<and> ensureProject_among (\<lambda>s. snd (ensureProject now0 key s)) now1 key s = (Err e, s1)
                \<and> err_type e = ''PROJECT_CREATE_FAILED'' \<and> \<not> recoverable e
                \<and> ensureProject now2 key s1 = (Ok p, s1)"
      by blast
  qed
qed

theorem ensureProject_idempotent_witness:
  "(\<exists>p s1. ensureProject (t0 + 1) ''/repo'' ex_empty = (Ok p, s1)
          \<and> ensureProject (t0 + 1000) ''/repo'' s1 = (Ok p, s1)
          \<and> length (rows_for_key ''/repo'' s1) = 1)
   \<and> rows_for_key ''/repo'' ex_empty = []
   \<and> (\<exists>e p s1. ensureProject t0 ''/repo'' ex_empty = (Ok p, s1)
          \<and> ensureProject_among (\<lambda>s. snd (ensureProject t0 ''/repo'' s)) (t0 + 1) ''/repo'' ex_empty
              = (Err e, s1)
          \<and> err_type e = ''PROJECT_CREATE_FAILED'' \<and> \<not> recoverable e
          \<and> ensureProject (t0 + 1000) ''/repo'' s1 = (Ok p, s1))"
proof -
  have h1: "distinct (map p_slug (projects ex_empty))" by code_simp
  have h2: "slugs_derived ex_empty" by code_simp
  have h3: "rows_for_key ''/repo'' ex_empty = []" by code_simp
  from ensureProject_idempotent [OF h1 h2, of "t0 + 1" "''/repo''" "t0 + 1000" t0] h3
  show ?thesis by blast
qed

text \<open>
  On an empty store, a call for \<open>/repo\<close> whose INSERT comes after another connection
  ensured \<open>/repo\<close> returns an error, not the winner's row.
\<close>

theorem ensureProject_race_loser_errors:
  "error_type_of (fst (ensureProject_among ex_rival (t0 + 1) ''/repo'' ex_empty))
     = Some ''PROJECT_CREATE_FAILED''
   \<and> projects (snd (ensureProject_among ex_rival (t0 + 1) ''/repo'' ex_empty))
     = [\<lparr>p_id = 1, p_slug = ''repo-2cbac21'', p_human_key = ''/repo'',
         p_created_at = ''2026-11-02 10:00:00''\<rparr>]"
  by code_simp

section \<open>Registering agents\<close>

lemma find_distinct_key:
  "distinct (map f xs) \<Longrightarrow> x \<in> set xs \<Longrightarrow> find (\<lambda>y. f y = f x) xs = Some x"
  by (induction xs) (auto simp: image_iff)

lemma isValidName_Cons: "isValidName name \<Longrightarrow> \<exists>c cs. name = c # cs"
  by (cases name) (simp_all add: isValidName_def match_name_def)

text \<open>
  C10. When the name given to \<open>registerAgent\<close> follows the naming convention
  (\<open>isValidName\<close>) and is the name of an agent \<open>b\<close> of the project, no row is added: the call
  returns \<open>b\<close>'s row with \<open>program\<close>, \<open>model\<close>, \<open>task_description\<close> and \<open>last_active_ts\<close>
  overwritten, that row replaces \<open>b\<close>'s in the table, every other row is as before, and the
  number of agents is unchanged.
\<close>

theorem registerAgent_existing_name_updates:
  assumes proj: "getProject (ra_projectSlug input) s = Ok project"
      and b: "find (\<lambda>a. a_project_id a = p_id project \<and> a_name a = name) (agents s) = Some b"
      and nm: "ra_name input = Some name"
      and valid: "isValidName name"
      and ids: "distinct (map a_id (agents s))"
      and b': "b' = b\<lparr>a_program := ra_program input, a_model := ra_model input,
                     a_task_description := (case ra_taskDescription input of None \<Rightarrow> [] | Some t \<Rightarrow> t),
                     a_last_active_ts := sqlite_datetime now\<rparr>"
  shows "\<exists>s'. registerAgent rnd now input s = Some (Ok (Some b'), s')
            \<and> agents s' = map (\<lambda>a. if a = b then b' else a) (agents s)
            \<and> length (agents s') = length (agents s)
            \<and> a_id b' = a_id b \<and> a_name b' = name"
proof -
  let ?task = "case ra_taskDescription input of None \<Rightarrow> [] | Some t \<Rightarrow> t"
  let ?upd = "update_profile now (a_id b) (ra_program input) (ra_model input) ?task"
  let ?s1 = "s\<lparr>agents := map ?upd (agents s)\<rparr>"
  from isValidName_Cons [OF valid] obtain c cs where name: "name = c # cs" by blast
  from b have bin: "b \<in> set (agents s)" and bname: "a_name b = name"
    by (auto simp: find_Some_iff)
  have ub: "?upd b = b'" by (simp add: update_profile_def b')
  have f1: "find (\<lambda>a. a_id a = a_id b) (map ?upd (agents s))
        = map_option ?upd (find (\<lambda>a. a_id a = a_id b) (agents s))"
    by (rule find_map_preserve) (simp add: update_profile_def)
  have f2: "find (\<lambda>a. a_id a = a_id b) (agents s) = Some b"
    using ids bin by (rule find_distinct_key)
  have re: "find (\<lambda>a. a_id a = a_id b) (map ?upd (agents s)) = Some b'"
    using f1 f2 ub by simp
  have reg: "register_as now project name input s = (Ok (Some b'), ?s1)"
    by (simp add: register_as_def b re Let_def)
  have res: "registerAgent rnd now input s = Some (Ok (Some b'), ?s1)"
    using valid by (simp add: registerAgent_def proj nm name reg [unfolded name] Let_def)
  have eq: "a = b \<longleftrightarrow> a_id a = a_id b" if "a \<in> set (agents s)" for a
    using ids that bin by (auto simp: distinct_map inj_on_def)
  have rows: "map ?upd (agents s) = map (\<lambda>a. if a = b then b' else a) (agents s)"
  proof (rule map_cong [OF refl])
    fix a assume a: "a \<in> set (agents s)"
    show "?upd a = (if a = b then b' else a)"
    proof (cases "a = b")
      case True
      then show ?thesis by (simp add: ub)
    next
      case False
      with eq [OF a] have "a_id a \<noteq> a_id b" by simp
      with False show ?thesis by (simp add: update_profile_def)
    qed
  qed
  have "a_id b' = a_id b" "a_name b' = name" by (simp_all add: b' bname)
  with res rows show ?thesis by simp
qed


theorem registerAgent_existing_name_updates_witness:
  "\<exists>s'. registerAgent ex_rnd0 (t0 + 1000) (ex_register (Some ''JadeWolf'') ''codex'') ex_store
          = Some (Ok (Some (ex_jade\<lparr>a_program := ''codex'', a_model := ''m2'',
                                     a_task_description := ''refactor'',
                                     a_last_active_ts := ''2026-11-02 10:00:01''\<rparr>)), s')
        \<and> length (agents s') = 2"
proof -
  let ?input = "ex_register (Some ''JadeWolf'') ''codex''"
  have h1: "getProject (ra_projectSlug ?input) ex_store = Ok ex_project" by code_simp
  have h2: "find (\<lambda>a. a_project_id a = p_id ex_project \<and> a_name a = ''JadeWolf'') (agents ex_store)
            = Some ex_jade"
    by code_simp
  have h3: "ra_name ?input = Some ''JadeWolf''" by code_simp
  have h4: "isValidName ''JadeWolf''" by code_simp
  have h5: "distinct (map a_id (agents ex_store))" by code_simp
  have h6: "ex_jade\<lparr>a_program := ''codex'', a_model := ''m2'', a_task_description := ''refactor'',
                    a_last_active_ts := ''2026-11-02 10:00:01''\<rparr>
            = ex_jade\<lparr>a_program := ra_program ?input, a_model := ra_model ?input,
                 a_task_description := (case ra_taskDescription ?input of None \<Rightarrow> [] | Some t \<Rightarrow> t),
                 a_last_active_ts := sqlite_datetime (t0 + 1000)\<rparr>"
    by code_simp
  have l: "length (agents ex_store) = 2" by code_simp
  from registerAgent_existing_name_updates [OF h1 h2 h3 h4 h5 h6, of ex_rnd0] show ?thesis
    unfolding l by blast
qed

text \<open>
  An agent named by the numeric-suffix fallback (\<open>AmberArrow1\<close>) has a name outside the
  convention. Registering with that exact name takes it as a hint, generates a fresh
  name and inserts a third row.
\<close>

theorem registerAgent_fallback_name_duplicates:
  "agent_names ex_store_fallback = [''AmberArrow'', ''AmberArrow1'']
   \<and> agent_names (store_after (registerAgent ex_rnd1 (t0 + 2000)
                                  (ex_register (Some ''AmberArrow1'') ''cli'') ex_store_fallback)
                    ex_store_fallback)
       = [''AmberArrow'', ''AmberArrow1'', ''AzureBay'']"
  by code_simp

section \<open>Further properties\<close>

text \<open>
  The INSERTs of \<open>sendMessage\<close> are not one unit. With the same agent twice among the
  recipients the second recipient row violates the primary key: the call returns
  \<open>MESSAGE_SEND_FAILED\<close>, and the message row and the first recipient row stay.
\<close>

theorem sendMessage_duplicate_recipient_partial:
  "error_type_of (fst (sendMessage t0 (ex_send ''AmberFox'' [''JadeWolf'', ''JadeWolf''] None) ex_store))
     = Some ''MESSAGE_SEND_FAILED''
   \<and> map m_id (messages (snd (sendMessage t0 (ex_send ''AmberFox'' [''JadeWolf'', ''JadeWolf''] None)
                                  ex_store))) = [1]
   \<and> message_recipients (snd (sendMessage t0 (ex_send ''AmberFox'' [''JadeWolf'', ''JadeWolf''] None)
                                  ex_store))
       = [\<lparr>mr_message_id = 1, mr_agent_id = 2, mr_kind = To, mr_read_ts = None, mr_ack_ts = None\<rparr>]"
  by code_simp

text \<open>
  \<open>ensureProject\<close> looks a project up by key or by slug. The keys \<open>/Aa/x/y\<close> and
  \<open>/BB/x/y\<close> have the same last two components and the same \<open>simpleHash\<close>, hence the same
  slug: ensuring the second after the first returns the first project and stores no row
  for the second key.
\<close>

theorem ensureProject_slug_collision:
  "projectSlug ''/Aa/x/y'' = projectSlug ''/BB/x/y''
   \<and> map p_human_key (projects (snd (ensureProject t0 ''/Aa/x/y'' ex_empty))) = [''/Aa/x/y'']
   \<and> ensureProject (t0 + 1000) ''/BB/x/y'' (snd (ensureProject t0 ''/Aa/x/y'' ex_empty))
       = (Ok \<lparr>p_id = 1, p_slug = ''x-y-2a9def42'', p_human_key = ''/Aa/x/y'',
               p_created_at = ''2026-11-02 10:00:00''\<rparr>,
          snd (ensureProject t0 ''/Aa/x/y'' ex_empty))"
  by code_simp

end
